theory Spec2Isabelle
  imports
    Complex_Main
    "HOL-Library.Multiset"
    "HOL-Library.Char_ord"
    "HOL-Library.List_Lexorder"
    "HOL-Library.Product_Lexorder"
begin

section \<open>GastoTrack: the persistence layer and the derived metrics\<close>

text \<open>
  The development embeds \<^verbatim>\<open>database.py\<close> (the SQL statements against the tables
  \<^verbatim>\<open>expenses\<close> and \<^verbatim>\<open>budgets\<close>) and the pure helpers of \<^verbatim>\<open>utils.py\<close>.

  Conventions of the embedding.
  \<^item> A table is the list of its rows in rowid order. A database is \<open>None\<close> while the
    tables have not been created (every statement then fails with
    \<^verbatim>\<open>sqlite3.OperationalError\<close>) and \<open>Some s\<close> afterwards.
  \<^item> SQLite \<^verbatim>\<open>REAL\<close> values and the amounts passed to the persistence layer are
    \<open>real\<close> numbers; the budget status, whose label depends on the rounding of floats,
    is computed with rounded operations.
  \<^item> \<^verbatim>\<open>TEXT\<close> values are strings; SQLite compares them bytewise (collation
    \<^verbatim>\<open>BINARY\<close>), which is the lexicographic order on \<open>char list\<close> used here.
  \<^item> \<^verbatim>\<open>CURRENT_TIMESTAMP\<close> is a parameter \<open>now\<close>, the text
    \<^verbatim>\<open>YYYY-MM-DD HH:MM:SS\<close> of the moment of the call.
  \<^item> A write operation returns its outcome (\<open>Inl\<close> the exception raised, \<open>Inr ()\<close> a
    normal return) together with the database as it is once the connection is closed:
    the committed state, or the state before the call after a rollback.
\<close>

subsection \<open>Schema\<close>

record expense =
  e_id :: int
  e_description :: string
  e_amount :: real
  e_category :: string
  e_date :: string
  e_notes :: "string option"
  e_created_at :: string

record budget =
  b_id :: int
  b_category :: string
  b_amount :: real
  b_period :: string
  b_description :: "string option"
  b_created_at :: string
  b_updated_at :: string

text \<open>
  The two tables, and for each the \<^verbatim>\<open>sqlite_sequence\<close> entry that
  \<^verbatim>\<open>AUTOINCREMENT\<close> maintains (the largest rowid the table has ever held).
\<close>

record store =
  expenses :: "expense list"
  budgets :: "budget list"
  expenses_seq :: int
  budgets_seq :: int

type_synonym db = "store option"

datatype error =
  ValueError string
  | OperationalError string

definition empty_store :: store where
  "empty_store = \<lparr>expenses = [], budgets = [], expenses_seq = 0, budgets_seq = 0\<rparr>"

definition init_db :: "db \<Rightarrow> db" where
  \<comment> \<open>\<^verbatim>\<open>CREATE TABLE IF NOT EXISTS\<close> for both tables, then commit.\<close>
  "init_db d = (case d of None \<Rightarrow> Some empty_store | Some s \<Rightarrow> Some s)"

definition next_rowid :: "int \<Rightarrow> int list \<Rightarrow> int" where
  \<comment> \<open>\<^verbatim>\<open>INTEGER PRIMARY KEY AUTOINCREMENT\<close>: one more than the largest rowid in the
      table and the recorded sequence value.\<close>
  "next_rowid seq ids = fold max ids seq + 1"

subsection \<open>Expense repository\<close>

definition insert_expense ::
  "string \<Rightarrow> string \<Rightarrow> real \<Rightarrow> string \<Rightarrow> string \<Rightarrow> string option \<Rightarrow> store \<Rightarrow> store" where
  \<comment> \<open>\<^verbatim>\<open>INSERT INTO expenses (description, amount, category, date, notes) VALUES (?, ?, ?, ?, ?)\<close>\<close>
  "insert_expense now description amount category date notes s =
     (let new_id = next_rowid (expenses_seq s) (map e_id (expenses s));
          row = \<lparr>e_id = new_id, e_description = description, e_amount = amount,
                 e_category = category, e_date = date, e_notes = notes,
                 e_created_at = now\<rparr>
      in s\<lparr>expenses := expenses s @ [row], expenses_seq := new_id\<rparr>)"

definition add_expense ::
  "string \<Rightarrow> string \<Rightarrow> real \<Rightarrow> string \<Rightarrow> string \<Rightarrow> string option \<Rightarrow> db \<Rightarrow> (error + unit) \<times> db" where
  "add_expense now description amount category date notes d =
     (if description = [] \<or> amount \<le> 0 \<or> category = [] \<or> date = []
      then (Inl (ValueError ''All required fields must be provided and amount must be positive''), d)
      else case d of
             None \<Rightarrow> (Inl (OperationalError ''no such table: expenses''), d)
           | Some s \<Rightarrow> (Inr (), Some (insert_expense now description amount category date notes s)))"

definition sql_update_expense ::
  "int \<Rightarrow> string \<Rightarrow> real \<Rightarrow> string \<Rightarrow> string \<Rightarrow> string option \<Rightarrow> store \<Rightarrow> store \<times> nat" where
  \<comment> \<open>\<^verbatim>\<open>UPDATE expenses SET description=?, amount=?, category=?, date=?, notes=? WHERE id=?\<close>,
      with the cursor's rowcount.\<close>
  "sql_update_expense expense_id description amount category date notes s =
     (s\<lparr>expenses :=
          map (\<lambda>r. if e_id r = expense_id
                   then r\<lparr>e_description := description, e_amount := amount,
                          e_category := category, e_date := date, e_notes := notes\<rparr>
                   else r) (expenses s)\<rparr>,
      length (filter (\<lambda>r. e_id r = expense_id) (expenses s)))"

definition update_expense ::
  "int \<Rightarrow> string \<Rightarrow> real \<Rightarrow> string \<Rightarrow> string \<Rightarrow> string option \<Rightarrow> db \<Rightarrow> (error + unit) \<times> db" where
  "update_expense expense_id description amount category date notes d =
     (if description = [] \<or> amount \<le> 0 \<or> category = [] \<or> date = []
      then (Inl (ValueError ''All required fields must be provided and amount must be positive''), d)
      else case d of
             None \<Rightarrow> (Inl (OperationalError ''no such table: expenses''), d)
           | Some s \<Rightarrow>
               (let (s', rowcount) = sql_update_expense expense_id description amount category date notes s
                in if rowcount = 0 then (Inl (ValueError ''Expense not found''), Some s)
                   else (Inr (), Some s')))"

definition sql_delete_expense :: "int \<Rightarrow> store \<Rightarrow> store \<times> nat" where
  \<comment> \<open>\<^verbatim>\<open>DELETE FROM expenses WHERE id=?\<close>, with the cursor's rowcount.\<close>
  "sql_delete_expense expense_id s =
     (s\<lparr>expenses := filter (\<lambda>r. e_id r \<noteq> expense_id) (expenses s)\<rparr>,
      length (filter (\<lambda>r. e_id r = expense_id) (expenses s)))"

definition delete_expense :: "int \<Rightarrow> db \<Rightarrow> (error + unit) \<times> db" where
  "delete_expense expense_id d =
     (case d of
        None \<Rightarrow> (Inl (OperationalError ''no such table: expenses''), d)
      | Some s \<Rightarrow>
          (let (s', rowcount) = sql_delete_expense expense_id s
           in if rowcount = 0 then (Inl (ValueError ''Expense not found''), Some s)
              else (Inr (), Some s')))"

definition order_by_date_created_desc :: "expense list \<Rightarrow> expense list" where
  \<comment> \<open>\<^verbatim>\<open>ORDER BY date DESC, created_at DESC\<close>\<close>
  "order_by_date_created_desc rows = rev (sort_key (\<lambda>e. (e_date e, e_created_at e)) rows)"

definition select_expenses :: "db \<Rightarrow> error + expense list" where
  \<comment> \<open>\<^verbatim>\<open>SELECT * FROM expenses ORDER BY date DESC, created_at DESC\<close>\<close>
  "select_expenses d =
     (case d of
        None \<Rightarrow> Inl (OperationalError ''no such table: expenses'')
      | Some s \<Rightarrow> Inr (order_by_date_created_desc (expenses s)))"

definition get_expenses :: "db \<Rightarrow> expense list" where
  \<comment> \<open>The \<^verbatim>\<open>except Exception\<close> branch returns an empty data frame.\<close>
  "get_expenses d = (case select_expenses d of Inl e \<Rightarrow> [] | Inr rows \<Rightarrow> rows)"

definition default_categories :: "string list" where
  "default_categories =
     [''Food & Dining'', ''Transportation'', ''Shopping'', ''Entertainment'',
      ''Bills & Utilities'', ''Healthcare'', ''Travel'', ''Education'', ''Other'']"

definition select_categories :: "db \<Rightarrow> error + string list" where
  \<comment> \<open>\<^verbatim>\<open>SELECT DISTINCT category FROM expenses ORDER BY category\<close>\<close>
  "select_categories d =
     (case d of
        None \<Rightarrow> Inl (OperationalError ''no such table: expenses'')
      | Some s \<Rightarrow> Inr (sort (remdups (map e_category (expenses s)))))"

definition get_categories :: "db \<Rightarrow> string list" where
  "get_categories d =
     (case select_categories d of
        Inl e \<Rightarrow> default_categories
      | Inr categories \<Rightarrow> if categories = [] then default_categories else categories)"

definition truthy :: "string option \<Rightarrow> bool" where
  \<comment> \<open>Python's truth value of an optional text: \<^verbatim>\<open>None\<close> and the empty text are false.\<close>
  "truthy x = (case x of None \<Rightarrow> False | Some v \<Rightarrow> v \<noteq> [])"

record summary_row =
  s_category :: string
  transaction_count :: nat
  total_amount :: real
  avg_amount :: real
  min_amount :: real
  max_amount :: real

definition date_filter :: "string option \<Rightarrow> string option \<Rightarrow> string \<Rightarrow> bool" where
  \<comment> \<open>The \<^verbatim>\<open>WHERE\<close> clause that \<^verbatim>\<open>get_expense_summary\<close> builds: \<^verbatim>\<open>date BETWEEN ? AND ?\<close>,
      \<^verbatim>\<open>date >= ?\<close>, \<^verbatim>\<open>date <= ?\<close>, or none. The column is \<^verbatim>\<open>TEXT\<close> and the comparison
      is that of texts.\<close>
  "date_filter start_date end_date date =
     (if truthy start_date \<and> truthy end_date
      then the start_date \<le> date \<and> date \<le> the end_date
      else if truthy start_date then the start_date \<le> date
      else if truthy end_date then date \<le> the end_date
      else True)"

definition summarize :: "expense list \<Rightarrow> string \<Rightarrow> summary_row" where
  \<comment> \<open>One group of \<^verbatim>\<open>GROUP BY category\<close> with \<^verbatim>\<open>COUNT(*)\<close>, \<^verbatim>\<open>SUM\<close>, \<^verbatim>\<open>AVG\<close>, \<^verbatim>\<open>MIN\<close> and
      \<^verbatim>\<open>MAX\<close> of \<^verbatim>\<open>amount\<close>. A group is never empty.\<close>
  "summarize rows c =
     (let amounts = map e_amount (filter (\<lambda>e. e_category e = c) rows)
      in \<lparr>s_category = c, transaction_count = length amounts,
          total_amount = sum_list amounts,
          avg_amount = sum_list amounts / real (length amounts),
          min_amount = Min (set amounts), max_amount = Max (set amounts)\<rparr>)"

definition select_summary :: "string option \<Rightarrow> string option \<Rightarrow> db \<Rightarrow> error + summary_row list" where
  \<comment> \<open>\<^verbatim>\<open>SELECT category, COUNT(*), SUM(amount), AVG(amount), MIN(amount), MAX(amount)
      FROM expenses [WHERE ...] GROUP BY category ORDER BY total_amount DESC\<close>\<close>
  "select_summary start_date end_date d =
     (case d of
        None \<Rightarrow> Inl (OperationalError ''no such table: expenses'')
      | Some s \<Rightarrow>
          (let rows = filter (\<lambda>e. date_filter start_date end_date (e_date e)) (expenses s);
               groups = map (summarize rows) (remdups (map e_category rows))
           in Inr (rev (sort_key total_amount groups))))"

definition get_expense_summary :: "string option \<Rightarrow> string option \<Rightarrow> db \<Rightarrow> summary_row list" where
  "get_expense_summary start_date end_date d =
     (case select_summary start_date end_date d of Inl e \<Rightarrow> [] | Inr rows \<Rightarrow> rows)"

text \<open>
  Dates reach the table as \<^verbatim>\<open>date.strftime("%Y-%m-%d")\<close>: four digits of the year
  (for the years 1000 to 9999), two of the month, two of the day.
\<close>

definition digit_char :: "nat \<Rightarrow> char" where
  "digit_char n = char_of (48 + n)"

definition pad2 :: "nat \<Rightarrow> string" where
  "pad2 n = [digit_char (n div 10), digit_char (n mod 10)]"

definition iso_date :: "nat \<Rightarrow> nat \<Rightarrow> nat \<Rightarrow> string" where
  "iso_date y m d = pad2 (y div 100) @ pad2 (y mod 100) @ ''-'' @ pad2 m @ ''-'' @ pad2 d"

definition valid_ymd :: "nat \<Rightarrow> nat \<Rightarrow> nat \<Rightarrow> bool" where
  "valid_ymd y m d = (1000 \<le> y \<and> y \<le> 9999 \<and> 1 \<le> m \<and> m \<le> 12 \<and> 1 \<le> d \<and> d \<le> 31)"

definition earlier :: "nat \<times> nat \<times> nat \<Rightarrow> nat \<times> nat \<times> nat \<Rightarrow> bool" where
  \<comment> \<open>Calendar order of two dates given as year, month, day.\<close>
  "earlier a b =
     (case (a, b) of
        ((y, m, d), (y', m', d')) \<Rightarrow> y < y' \<or> (y = y' \<and> (m < m' \<or> (m = m' \<and> d < d'))))"

subsection \<open>Search\<close>

definition ascii_lower :: "char \<Rightarrow> char" where
  \<comment> \<open>SQLite's \<^verbatim>\<open>LIKE\<close> folds the case of the ASCII letters only.\<close>
  "ascii_lower c =
     (case map_of (zip ''ABCDEFGHIJKLMNOPQRSTUVWXYZ'' ''abcdefghijklmnopqrstuvwxyz'') c of
        None \<Rightarrow> c
      | Some l \<Rightarrow> l)"

fun like :: "string \<Rightarrow> string \<Rightarrow> bool" where
  \<comment> \<open>\<open>like pattern text\<close> is SQLite's \<^verbatim>\<open>text LIKE pattern\<close> without an \<^verbatim>\<open>ESCAPE\<close>
      clause: \<^verbatim>\<open>%\<close> matches any sequence of characters, \<^verbatim>\<open>_\<close> any single character,
      every other character itself up to ASCII case.\<close>
  "like [] [] = True"
| "like [] (c # cs) = False"
| "like (p # ps) [] = (p = CHR ''%'' \<and> like ps [])"
| "like (p # ps) (c # cs) =
     (if p = CHR ''%'' then like ps (c # cs) \<or> like (p # ps) cs
      else (p = CHR ''_'' \<or> ascii_lower p = ascii_lower c) \<and> like ps cs)"

definition search_match :: "string \<Rightarrow> expense \<Rightarrow> bool" where
  \<comment> \<open>\<^verbatim>\<open>description LIKE ? OR notes LIKE ? OR category LIKE ?\<close>; \<^verbatim>\<open>LIKE\<close> on a \<^verbatim>\<open>NULL\<close>
      is \<^verbatim>\<open>NULL\<close>, which selects the row only if another disjunct is true.\<close>
  "search_match search_pattern e =
     (like search_pattern (e_description e) \<or>
      (case e_notes e of None \<Rightarrow> False | Some n \<Rightarrow> like search_pattern n) \<or>
      like search_pattern (e_category e))"

definition select_search :: "string \<Rightarrow> db \<Rightarrow> error + expense list" where
  \<comment> \<open>\<^verbatim>\<open>SELECT * FROM expenses WHERE description LIKE ? OR notes LIKE ? OR category LIKE ?
      ORDER BY date DESC, created_at DESC\<close>\<close>
  "select_search search_pattern d =
     (case d of
        None \<Rightarrow> Inl (OperationalError ''no such table: expenses'')
      | Some s \<Rightarrow>
          Inr (order_by_date_created_desc (filter (search_match search_pattern) (expenses s))))"

definition search_expenses :: "string option \<Rightarrow> db \<Rightarrow> expense list" where
  "search_expenses search_term d =
     (if \<not> truthy search_term then get_expenses d
      else
        let search_pattern = ''%'' @ the search_term @ ''%''
        in case select_search search_pattern d of Inl e \<Rightarrow> [] | Inr rows \<Rightarrow> rows)"

fun starts_with_ci :: "string \<Rightarrow> string \<Rightarrow> bool" where
  "starts_with_ci [] text = True"
| "starts_with_ci (t # ts) [] = False"
| "starts_with_ci (t # ts) (c # cs) = (ascii_lower t = ascii_lower c \<and> starts_with_ci ts cs)"

fun contains_ci :: "string \<Rightarrow> string \<Rightarrow> bool" where
  \<comment> \<open>The specification's matching rule: \<open>contains_ci search_term text\<close> holds when \<open>search_term\<close>
      occurs in \<open>text\<close> as a substring, up to the case of the ASCII letters.\<close>
  "contains_ci search_term [] = (search_term = [])"
| "contains_ci search_term (c # cs) = (starts_with_ci search_term (c # cs) \<or> contains_ci search_term cs)"

definition spec_search_match :: "string \<Rightarrow> expense \<Rightarrow> bool" where
  \<comment> \<open>The specification's selection: the term occurs in the description, the notes or
      the category.\<close>
  "spec_search_match search_term e =
     (contains_ci search_term (e_description e) \<or>
      (case e_notes e of None \<Rightarrow> False | Some n \<Rightarrow> contains_ci search_term n) \<or>
      contains_ci search_term (e_category e))"

subsection \<open>Budget repository\<close>

definition insert_or_replace_budget ::
  "string \<Rightarrow> string \<Rightarrow> real \<Rightarrow> string \<Rightarrow> string option \<Rightarrow> store \<Rightarrow> store" where
  \<comment> \<open>\<^verbatim>\<open>INSERT OR REPLACE INTO budgets (category, amount, period, description, updated_at)
      VALUES (?, ?, ?, ?, CURRENT_TIMESTAMP)\<close>: the rows that conflict on the
      \<^verbatim>\<open>UNIQUE\<close> column \<^verbatim>\<open>category\<close> are deleted and a new row is inserted; \<^verbatim>\<open>id\<close>
      and \<^verbatim>\<open>created_at\<close> are not listed, so they take their defaults.\<close>
  "insert_or_replace_budget now category amount period description s =
     (let new_id = next_rowid (budgets_seq s) (map b_id (budgets s));
          row = \<lparr>b_id = new_id, b_category = category, b_amount = amount,
                 b_period = period, b_description = description,
                 b_created_at = now, b_updated_at = now\<rparr>
      in s\<lparr>budgets := filter (\<lambda>b. b_category b \<noteq> category) (budgets s) @ [row],
            budgets_seq := new_id\<rparr>)"

definition set_budget ::
  "string \<Rightarrow> string \<Rightarrow> real \<Rightarrow> string \<Rightarrow> string option \<Rightarrow> db \<Rightarrow> (error + unit) \<times> db" where
  "set_budget now category amount period description d =
     (if category = [] \<or> amount \<le> 0
      then (Inl (ValueError ''Category and positive amount are required''), d)
      else case d of
             None \<Rightarrow> (Inl (OperationalError ''no such table: budgets''), d)
           | Some s \<Rightarrow> (Inr (), Some (insert_or_replace_budget now category amount period description s)))"

definition sql_delete_budget :: "int \<Rightarrow> store \<Rightarrow> store \<times> nat" where
  \<comment> \<open>\<^verbatim>\<open>DELETE FROM budgets WHERE id=?\<close>, with the cursor's rowcount.\<close>
  "sql_delete_budget budget_id s =
     (s\<lparr>budgets := filter (\<lambda>b. b_id b \<noteq> budget_id) (budgets s)\<rparr>,
      length (filter (\<lambda>b. b_id b = budget_id) (budgets s)))"

definition delete_budget :: "int \<Rightarrow> db \<Rightarrow> (error + unit) \<times> db" where
  "delete_budget budget_id d =
     (case d of
        None \<Rightarrow> (Inl (OperationalError ''no such table: budgets''), d)
      | Some s \<Rightarrow>
          (let (s', rowcount) = sql_delete_budget budget_id s
           in if rowcount = 0 then (Inl (ValueError ''Budget not found''), Some s)
              else (Inr (), Some s')))"

subsection \<open>Budget status\<close>

text \<open>
  \<^verbatim>\<open>calculate_budget_status\<close> computes with Python floats, and its label depends on
  the rounding: \<^verbatim>\<open>(spent_amount / budget_amount) * 100\<close> is a division rounded to a
  double followed by a multiplication rounded to a double. A finite double is the real
  number it denotes. \<open>double_round\<close> is the rounding of IEEE 754 binary64, to the nearest
  double with ties to the even significand: 53 bits of significand above the exponent
  \<open>-1074\<close>, where the spacing stays \<open>2 powr - 1074\<close> (gradual underflow). A result of
  magnitude \<open>2 ^ 1024\<close> or more, which the machine replaces by an infinity, keeps its
  value here; for a positive budget both compare with the thresholds alike and both are
  capped at 100.
\<close>

definition round_half_even :: "real \<Rightarrow> int" where
  "round_half_even y =
     (let f = \<lfloor>y\<rfloor>; r = y - of_int f
      in if r < 1 / 2 then f
         else if 1 / 2 < r then f + 1
         else if even f then f else f + 1)"

definition double_round :: "real \<Rightarrow> real" where
  "double_round x =
     (if x = 0 then 0
      else
        let ulp = 2 powr of_int (max (\<lfloor>log 2 \<bar>x\<bar>\<rfloor> - 52) (- 1074))
        in of_int (round_half_even (x / ulp)) * ulp)"

record budget_status =
  percentage :: real
  remaining :: real
  status :: string
  color :: string

text \<open>The three float operations of the function: \<^verbatim>\<open>/\<close>, \<^verbatim>\<open>*\<close> and \<^verbatim>\<open>-\<close>.\<close>

definition float_div :: "real \<Rightarrow> real \<Rightarrow> real" where
  "float_div x y = double_round (x / y)"

definition float_mul :: "real \<Rightarrow> real \<Rightarrow> real" where
  "float_mul x y = double_round (x * y)"

definition float_sub :: "real \<Rightarrow> real \<Rightarrow> real" where
  "float_sub x y = double_round (x - y)"

definition calculate_budget_status :: "real \<Rightarrow> real \<Rightarrow> budget_status" where
  "calculate_budget_status spent_amount budget_amount =
     (if budget_amount \<le> 0
      then \<lparr>percentage = 0, remaining = 0, status = ''No Budget Set'', color = ''gray''\<rparr>
      else
        let percentage = float_mul (float_div spent_amount budget_amount) 100;
            remaining = float_sub budget_amount spent_amount;
            (status, color) =
              (if percentage \<ge> 100 then (''Over Budget'', ''red'')
               else if percentage \<ge> 90 then (''Near Limit'', ''orange'')
               else if percentage \<ge> 75 then (''On Track'', ''yellow'')
               else (''Good'', ''green''))
        in \<lparr>percentage = min percentage 100, remaining = remaining,
            status = status, color = color\<rparr>)"

text \<open>The doubles that the literals \<^verbatim>\<open>0.03\<close> and \<^verbatim>\<open>0.04\<close> denote.\<close>

definition double_003 :: real where
  "double_003 = 1080863910568919 / 2 ^ 55"

definition double_004 :: real where
  "double_004 = 5764607523034235 / 2 ^ 57"

subsection \<open>Validation\<close>

text \<open>
  \<^verbatim>\<open>validate_expense_data\<close> reads the clock and parses the date. Calendar days are
  integers here (the ordinal of \<^verbatim>\<open>date.toordinal()\<close>), so that
  \<^verbatim>\<open>today - timedelta(days=3650)\<close> is a subtraction; \<open>today\<close> stands for
  \<^verbatim>\<open>datetime.now().date()\<close>, and \<open>strptime\<close> for the library's
  \<^verbatim>\<open>datetime.strptime(date, "%Y-%m-%d")\<close> followed by \<^verbatim>\<open>.date()\<close>, with \<open>None\<close>
  where it raises \<^verbatim>\<open>ValueError\<close>. The \<open>date\<close> argument is \<^verbatim>\<open>None\<close>, a text, a date
  object, or any other object, of which only the truth value matters. In this function a
  text is the list of its characters, and \<open>is_space\<close> holds of the characters below
  code point 256 that \<^verbatim>\<open>str.strip\<close> removes.
\<close>

definition is_space :: "char \<Rightarrow> bool" where
  "is_space c =
     (c \<in> set [CHR '' '', CHR 0x09, CHR 0x0A, CHR 0x0B, CHR 0x0C, CHR 0x0D,
               CHR 0x1C, CHR 0x1D, CHR 0x1E, CHR 0x1F, CHR 0x85, CHR 0xA0])"

definition strip :: "string \<Rightarrow> string" where
  "strip s = rev (dropWhile is_space (rev (dropWhile is_space s)))"

datatype date_arg = DateNone | DateStr string | DateObj int | DateOther bool

definition date_falsy :: "date_arg \<Rightarrow> bool" where
  \<comment> \<open>\<^verbatim>\<open>not date\<close>: true of \<^verbatim>\<open>None\<close> and of the empty text, false of every date object;
      another object carries its truth value.\<close>
  "date_falsy date =
     (case date of
        DateNone \<Rightarrow> True
      | DateStr s \<Rightarrow> s = []
      | DateObj d \<Rightarrow> False
      | DateOther truth \<Rightarrow> \<not> truth)"

definition parse_date :: "(string \<Rightarrow> int option) \<Rightarrow> date_arg \<Rightarrow> int option" where
  \<comment> \<open>The head of the \<^verbatim>\<open>try\<close> block: \<^verbatim>\<open>strptime\<close> on a text, \<^verbatim>\<open>datetime.combine\<close> on
      anything else, which raises \<^verbatim>\<open>TypeError\<close> unless it is given a date. \<open>None\<close> is
      the raise, caught by \<^verbatim>\<open>except (ValueError, TypeError)\<close>.\<close>
  "parse_date strptime date =
     (case date of
        DateNone \<Rightarrow> None
      | DateStr s \<Rightarrow> strptime s
      | DateObj d \<Rightarrow> Some d
      | DateOther truth \<Rightarrow> None)"

definition validate_expense_data ::
  "(string \<Rightarrow> int option) \<Rightarrow> int \<Rightarrow> string option \<Rightarrow> real option \<Rightarrow> string option \<Rightarrow>
   date_arg \<Rightarrow> string list" where
  "validate_expense_data strptime today description amount category date =
     (let errors = [];
          errors = (if (case description of None \<Rightarrow> True | Some t \<Rightarrow> t = [] \<or> strip t = [])
                    then errors @ [''Description is required''] else errors);
          errors = (if (case amount of None \<Rightarrow> True | Some a \<Rightarrow> a \<le> 0)
                    then errors @ [''Amount must be greater than 0''] else errors);
          errors = (if (case category of None \<Rightarrow> True | Some t \<Rightarrow> t = [] \<or> strip t = [])
                    then errors @ [''Category is required''] else errors);
          errors = (if date_falsy date then errors @ [''Date is required''] else errors)
      in case parse_date strptime date of
           None \<Rightarrow> errors @ [''Invalid date format'']
         | Some parsed_date \<Rightarrow>
             (let errors = (if parsed_date > today
                            then errors @ [''Date cannot be in the future''] else errors);
                  errors = (if parsed_date < today - 3650
                            then errors @ [''Date seems too far in the past''] else errors)
              in errors))"

definition demo_strptime :: "string \<Rightarrow> int option" where
  \<comment> \<open>A parser that knows one date, for the sample evaluations.\<close>
  "demo_strptime s = (if s = ''2024-01-05'' then Some 738890 else None)"

subsection \<open>Reachable databases\<close>

text \<open>
  The databases the application can produce: it starts without tables, and every call of
  the layer, successful or not, leads from a reachable database to a reachable one.
\<close>

inductive reachable :: "db \<Rightarrow> bool" where
  reachable_start: "reachable None"
| reachable_init_db: "reachable d \<Longrightarrow> reachable (init_db d)"
| reachable_add_expense:
    "reachable d \<Longrightarrow> reachable (snd (add_expense now description amount category date notes d))"
| reachable_update_expense:
    "reachable d \<Longrightarrow>
     reachable (snd (update_expense expense_id description amount category date notes d))"
| reachable_delete_expense: "reachable d \<Longrightarrow> reachable (snd (delete_expense expense_id d))"
| reachable_set_budget:
    "reachable d \<Longrightarrow> reachable (snd (set_budget now category amount period description d))"
| reachable_delete_budget: "reachable d \<Longrightarrow> reachable (snd (delete_budget budget_id d))"

definition amounts_positive :: "db \<Rightarrow> bool" where
  "amounts_positive d =
     (case d of
        None \<Rightarrow> True
      | Some s \<Rightarrow> list_all (\<lambda>e. 0 < e_amount e) (expenses s) \<and>
                  list_all (\<lambda>b. 0 < b_amount b) (budgets s))"

definition keys_unique :: "db \<Rightarrow> bool" where
  \<comment> \<open>The \<^verbatim>\<open>PRIMARY KEY\<close> and \<^verbatim>\<open>UNIQUE\<close> constraints of the schema.\<close>
  "keys_unique d =
     (case d of
        None \<Rightarrow> True
      | Some s \<Rightarrow> distinct (map e_id (expenses s)) \<and> distinct (map b_id (budgets s)) \<and>
                  distinct (map b_category (budgets s)))"

subsection \<open>A sample database\<close>

text \<open>
  The example scenario of the specification, with a budget for each of its two
  categories; the theorems below are instantiated on it.
\<close>

definition demo_coffee :: expense where
  "demo_coffee =
     \<lparr>e_id = 1, e_description = ''Coffee'', e_amount = 9 / 2, e_category = ''Food & Dining'',
      e_date = ''2024-01-05'', e_notes = None, e_created_at = ''2024-01-05 10:00:00''\<rparr>"

definition demo_bus :: expense where
  "demo_bus =
     \<lparr>e_id = 2, e_description = ''Bus pass'', e_amount = 60, e_category = ''Transportation'',
      e_date = ''2024-01-01'', e_notes = Some ''monthly'', e_created_at = ''2024-01-05 10:05:00''\<rparr>"

definition demo_food_budget :: budget where
  "demo_food_budget =
     \<lparr>b_id = 1, b_category = ''Food & Dining'', b_amount = 100, b_period = ''Monthly'',
      b_description = None, b_created_at = ''2024-01-06 09:00:00'',
      b_updated_at = ''2024-01-06 09:00:00''\<rparr>"

definition demo_transport_budget :: budget where
  "demo_transport_budget =
     \<lparr>b_id = 2, b_category = ''Transportation'', b_amount = 80, b_period = ''Weekly'',
      b_description = Some ''commute'', b_created_at = ''2024-01-06 09:01:00'',
      b_updated_at = ''2024-01-06 09:01:00''\<rparr>"

definition demo_store :: store where
  "demo_store =
     \<lparr>expenses = [demo_coffee, demo_bus],
      budgets = [demo_food_budget, demo_transport_budget],
      expenses_seq = 2, budgets_seq = 2\<rparr>"

definition demo_db :: db where
  "demo_db =
     snd (set_budget ''2024-01-06 09:01:00'' ''Transportation'' 80 ''Weekly'' (Some ''commute'')
       (snd (set_budget ''2024-01-06 09:00:00'' ''Food & Dining'' 100 ''Monthly'' None
         (snd (add_expense ''2024-01-05 10:05:00'' ''Bus pass'' 60 ''Transportation''
                 ''2024-01-01'' (Some ''monthly'')
           (snd (add_expense ''2024-01-05 10:00:00'' ''Coffee'' (9 / 2) ''Food & Dining''
                   ''2024-01-05'' None
             (init_db None))))))))"

section \<open>Properties\<close>

subsection \<open>Row identifiers\<close>

lemma fold_max_ge_init: "(seq::int) \<le> fold max ids seq"
  by (induction ids arbitrary: seq) (auto intro: order_trans [OF max.cobounded2])

lemma fold_max_ge_mem: "(x::int) \<in> set ids \<Longrightarrow> x \<le> fold max ids seq"
proof (induction ids arbitrary: seq)
  case Nil
  then show ?case by simp
next
  case (Cons a ids)
  show ?case
  proof (cases "x = a")
    case True
    have "a \<le> max a seq" by simp
    also have "\<dots> \<le> fold max ids (max a seq)" by (rule fold_max_ge_init)
    finally show ?thesis using True by simp
  next
    case False
    with Cons show ?thesis by simp
  qed
qed

lemma next_rowid_fresh: "x \<in> set ids \<Longrightarrow> x < next_rowid seq ids"
  using fold_max_ge_mem [of x ids seq] by (simp add: next_rowid_def)

lemma next_rowid_notin: "next_rowid seq ids \<notin> set ids"
  using next_rowid_fresh [of "next_rowid seq ids" ids seq] by auto

subsection \<open>The sample database is reachable\<close>

lemma demo_db_reachable: "reachable demo_db"
  unfolding demo_db_def
  by (intro reachable_set_budget reachable_add_expense reachable_init_db reachable_start)

lemma demo_db_eq: "demo_db = Some demo_store"
  by (simp add: demo_db_def set_budget_def add_expense_def init_db_def empty_store_def
      insert_expense_def insert_or_replace_budget_def next_rowid_def Let_def
      demo_store_def demo_coffee_def demo_bus_def demo_food_budget_def
      demo_transport_budget_def)

lemma demo_store_reachable: "reachable (Some demo_store)"
  using demo_db_reachable by (simp add: demo_db_eq)

subsection \<open>Budget upsert\<close>

text \<open>
  C1. A call of \<open>set_budget\<close> with an empty category or an amount that is not positive
  raises the validation error and leaves the database as it was. Any other call on an
  initialised database succeeds, and afterwards exactly one budget row has that category:
  it carries the amount, period and description of the call and its \<open>updated_at\<close> is the
  time of the call. The rows of the other categories and the expenses are untouched.
\<close>

theorem set_budget_upsert:
  "(category = [] \<or> amount \<le> 0 \<longrightarrow>
      set_budget now category amount period description d =
        (Inl (ValueError ''Category and positive amount are required''), d)) \<and>
   (category \<noteq> [] \<and> 0 < amount \<longrightarrow>
      (\<exists>s' row.
         set_budget now category amount period description (Some s) = (Inr (), Some s') \<and>
         filter (\<lambda>b. b_category b = category) (budgets s') = [row] \<and>
         b_amount row = amount \<and> b_period row = period \<and>
         b_description row = description \<and> b_updated_at row = now \<and>
         filter (\<lambda>b. b_category b \<noteq> category) (budgets s') =
           filter (\<lambda>b. b_category b \<noteq> category) (budgets s) \<and>
         expenses s' = expenses s))"
  by (auto simp add: set_budget_def insert_or_replace_budget_def Let_def)

theorem set_budget_upsert_witness:
  "set_budget ''2024-02-01 08:00:00'' [] 150 ''Weekly'' (Some ''groceries'') (Some demo_store) =
     (Inl (ValueError ''Category and positive amount are required''), Some demo_store) \<and>
   (\<exists>s' row.
      set_budget ''2024-02-01 08:00:00'' ''Food & Dining'' 150 ''Weekly'' (Some ''groceries'')
        (Some demo_store) = (Inr (), Some s') \<and>
      filter (\<lambda>b. b_category b = ''Food & Dining'') (budgets s') = [row] \<and>
      b_amount row = 150 \<and> b_period row = ''Weekly'' \<and>
      b_description row = Some ''groceries'' \<and> b_updated_at row = ''2024-02-01 08:00:00'' \<and>
      filter (\<lambda>b. b_category b \<noteq> ''Food & Dining'') (budgets s') = [demo_transport_budget] \<and>
      expenses s' = [demo_coffee, demo_bus])"
  using
    set_budget_upsert [where category = "[]" and amount = 150
      and now = "''2024-02-01 08:00:00''" and period = "''Weekly''"
      and description = "Some ''groceries''" and d = "Some demo_store" and s = demo_store]
    set_budget_upsert [where category = "''Food & Dining''" and amount = 150
      and now = "''2024-02-01 08:00:00''" and period = "''Weekly''"
      and description = "Some ''groceries''" and d = "Some demo_store" and s = demo_store]
  by (simp add: demo_store_def demo_food_budget_def demo_transport_budget_def)

subsection \<open>Stored amounts\<close>

lemma amounts_positive_init_db: "amounts_positive d \<Longrightarrow> amounts_positive (init_db d)"
  by (auto simp add: amounts_positive_def init_db_def empty_store_def split: option.splits)

lemma amounts_positive_add_expense:
  "amounts_positive d \<Longrightarrow>
   amounts_positive (snd (add_expense now description amount category date notes d))"
  by (auto simp add: amounts_positive_def add_expense_def insert_expense_def Let_def
      split: option.splits)

lemma amounts_positive_update_expense:
  "amounts_positive d \<Longrightarrow>
   amounts_positive (snd (update_expense expense_id description amount category date notes d))"
  by (auto simp add: amounts_positive_def update_expense_def sql_update_expense_def Let_def
      list_all_iff split: option.splits)

lemma amounts_positive_delete_expense:
  "amounts_positive d \<Longrightarrow> amounts_positive (snd (delete_expense expense_id d))"
  by (auto simp add: amounts_positive_def delete_expense_def sql_delete_expense_def Let_def
      list_all_iff split: option.splits)

lemma amounts_positive_set_budget:
  "amounts_positive d \<Longrightarrow>
   amounts_positive (snd (set_budget now category amount period description d))"
  by (auto simp add: amounts_positive_def set_budget_def insert_or_replace_budget_def Let_def
      list_all_iff split: option.splits)

lemma amounts_positive_delete_budget:
  "amounts_positive d \<Longrightarrow> amounts_positive (snd (delete_budget budget_id d))"
  by (auto simp add: amounts_positive_def delete_budget_def sql_delete_budget_def Let_def
      list_all_iff split: option.splits)

lemma reachable_amounts_positive: "reachable d \<Longrightarrow> amounts_positive d"
proof (induction rule: reachable.induct)
  case reachable_start
  show ?case by (simp add: amounts_positive_def)
qed (simp_all add: amounts_positive_init_db amounts_positive_add_expense
    amounts_positive_update_expense amounts_positive_delete_expense
    amounts_positive_set_budget amounts_positive_delete_budget)

text \<open>
  C2. In every reachable database each stored expense amount and each stored budget
  amount is strictly positive; \<open>add_expense\<close>, \<open>update_expense\<close> and \<open>set_budget\<close>
  answer an amount that is not positive with the validation error and leave the database
  as it was.
\<close>

theorem stored_amounts_positive:
  assumes "reachable (Some s)"
  shows "(\<forall>e \<in> set (expenses s). 0 < e_amount e) \<and>
         (\<forall>b \<in> set (budgets s). 0 < b_amount b) \<and>
         (amount \<le> 0 \<longrightarrow>
            add_expense now description amount category date notes d =
              (Inl (ValueError ''All required fields must be provided and amount must be positive''), d) \<and>
            update_expense expense_id description amount category date notes d =
              (Inl (ValueError ''All required fields must be provided and amount must be positive''), d) \<and>
            set_budget now category amount period budget_description d =
              (Inl (ValueError ''Category and positive amount are required''), d))"
proof -
  from assms have "amounts_positive (Some s)" by (rule reachable_amounts_positive)
  then have "(\<forall>e \<in> set (expenses s). 0 < e_amount e) \<and> (\<forall>b \<in> set (budgets s). 0 < b_amount b)"
    by (simp add: amounts_positive_def list_all_iff)
  then show ?thesis
    by (simp add: add_expense_def update_expense_def set_budget_def)
qed

theorem stored_amounts_positive_witness:
  "reachable (Some demo_store) \<and>
   expenses demo_store = [demo_coffee, demo_bus] \<and>
   budgets demo_store = [demo_food_budget, demo_transport_budget] \<and>
   0 < e_amount demo_coffee \<and> 0 < e_amount demo_bus \<and>
   0 < b_amount demo_food_budget \<and> 0 < b_amount demo_transport_budget \<and>
   (- 5 :: real) \<le> 0 \<and>
   add_expense ''2024-01-07 08:00:00'' ''Tea'' (- 5) ''Food'' ''2024-01-07'' None (Some demo_store) =
     (Inl (ValueError ''All required fields must be provided and amount must be positive''),
      Some demo_store) \<and>
   update_expense 1 ''Tea'' (- 5) ''Food'' ''2024-01-07'' None (Some demo_store) =
     (Inl (ValueError ''All required fields must be provided and amount must be positive''),
      Some demo_store) \<and>
   set_budget ''2024-01-07 08:00:00'' ''Food'' (- 5) ''Monthly'' None (Some demo_store) =
     (Inl (ValueError ''Category and positive amount are required''), Some demo_store)"
proof -
  note t = stored_amounts_positive [OF demo_store_reachable,
      where amount = "- 5" and now = "''2024-01-07 08:00:00''" and description = "''Tea''"
        and category = "''Food''" and date = "''2024-01-07''" and ?notes = None
        and d = "Some demo_store" and expense_id = 1 and period = "''Monthly''"
        and budget_description = None]
  have rows: "expenses demo_store = [demo_coffee, demo_bus]"
    "budgets demo_store = [demo_food_budget, demo_transport_budget]"
    by (simp_all add: demo_store_def)
  from t rows demo_store_reachable show ?thesis by simp
qed

subsection \<open>Update and delete by identifier\<close>

text \<open>
  C5. With fields that pass validation, \<open>update_expense\<close> on an identifier that no row
  carries raises "Expense not found" and so does \<open>delete_expense\<close>; the raise follows the
  rowcount check and the database is left as it was. On the identifier of a row \<open>e\<close>,
  \<open>delete_expense\<close> removes that row and nothing else, and \<open>update_expense\<close> replaces
  the description, amount, category, date and notes of that row and nothing else.
\<close>

theorem update_delete_by_id:
  assumes "description \<noteq> []" and "0 < amount" and "category \<noteq> []" and "date \<noteq> []"
  shows
    "(expense_id \<notin> e_id ` set (expenses s) \<longrightarrow>
        update_expense expense_id description amount category date notes (Some s) =
          (Inl (ValueError ''Expense not found''), Some s) \<and>
        delete_expense expense_id (Some s) =
          (Inl (ValueError ''Expense not found''), Some s)) \<and>
     (distinct (map e_id (expenses s)) \<and> expenses s = xs @ e # ys \<and> e_id e = expense_id \<longrightarrow>
        delete_expense expense_id (Some s) = (Inr (), Some (s\<lparr>expenses := xs @ ys\<rparr>)) \<and>
        update_expense expense_id description amount category date notes (Some s) =
          (Inr (), Some (s\<lparr>expenses :=
             xs @ e\<lparr>e_description := description, e_amount := amount, e_category := category,
                     e_date := date, e_notes := notes\<rparr> # ys\<rparr>)))"
proof (intro conjI impI)
  assume "expense_id \<notin> e_id ` set (expenses s)"
  then have none: "filter (\<lambda>r. e_id r = expense_id) (expenses s) = []"
    by (auto simp add: filter_empty_conv)
  from none assms
  show "update_expense expense_id description amount category date notes (Some s) =
          (Inl (ValueError ''Expense not found''), Some s)"
    by (simp add: update_expense_def sql_update_expense_def)
  from none show "delete_expense expense_id (Some s) =
          (Inl (ValueError ''Expense not found''), Some s)"
    by (simp add: delete_expense_def sql_delete_expense_def)
next
  assume h: "distinct (map e_id (expenses s)) \<and> expenses s = xs @ e # ys \<and> e_id e = expense_id"
  then have "expense_id \<notin> e_id ` set xs" and "expense_id \<notin> e_id ` set ys"
    by auto
  then have xs: "\<forall>r \<in> set xs. e_id r \<noteq> expense_id"
    and ys: "\<forall>r \<in> set ys. e_id r \<noteq> expense_id"
    by blast+
  from xs have fx: "filter (\<lambda>r. e_id r \<noteq> expense_id) xs = xs" by (simp add: filter_id_conv)
  from ys have fy: "filter (\<lambda>r. e_id r \<noteq> expense_id) ys = ys" by (simp add: filter_id_conv)
  from xs have gx: "filter (\<lambda>r. e_id r = expense_id) xs = []" by (simp add: filter_empty_conv)
  from ys have gy: "filter (\<lambda>r. e_id r = expense_id) ys = []" by (simp add: filter_empty_conv)
  from h fx fy gx gy
  show "delete_expense expense_id (Some s) = (Inr (), Some (s\<lparr>expenses := xs @ ys\<rparr>))"
    by (simp add: delete_expense_def sql_delete_expense_def)
  let ?u = "\<lambda>r. if e_id r = expense_id
                 then r\<lparr>e_description := description, e_amount := amount,
                        e_category := category, e_date := date, e_notes := notes\<rparr>
                 else r"
  from xs have mx: "map ?u xs = xs" by (simp add: map_idI)
  from ys have my: "map ?u ys = ys" by (simp add: map_idI)
  from h assms gx gy mx my
  show "update_expense expense_id description amount category date notes (Some s) =
          (Inr (), Some (s\<lparr>expenses :=
             xs @ e\<lparr>e_description := description, e_amount := amount, e_category := category,
                     e_date := date, e_notes := notes\<rparr> # ys\<rparr>))"
    by (simp add: update_expense_def sql_update_expense_def)
qed

theorem update_delete_by_id_witness:
  "''Tea'' \<noteq> [] \<and> (0::real) < 3 \<and> ''Food & Dining'' \<noteq> [] \<and> ''2024-01-07'' \<noteq> [] \<and>
   7 \<notin> e_id ` set (expenses demo_store) \<and>
   update_expense 7 ''Tea'' 3 ''Food & Dining'' ''2024-01-07'' None (Some demo_store) =
     (Inl (ValueError ''Expense not found''), Some demo_store) \<and>
   delete_expense 7 (Some demo_store) =
     (Inl (ValueError ''Expense not found''), Some demo_store) \<and>
   distinct (map e_id (expenses demo_store)) \<and>
   expenses demo_store = [demo_coffee] @ demo_bus # [] \<and> e_id demo_bus = 2 \<and>
   delete_expense 2 (Some demo_store) =
     (Inr (), Some (demo_store\<lparr>expenses := [demo_coffee]\<rparr>)) \<and>
   update_expense 2 ''Tea'' 3 ''Food & Dining'' ''2024-01-07'' None (Some demo_store) =
     (Inr (), Some (demo_store\<lparr>expenses :=
        [demo_coffee,
         \<lparr>e_id = 2, e_description = ''Tea'', e_amount = 3, e_category = ''Food & Dining'',
          e_date = ''2024-01-07'', e_notes = None, e_created_at = ''2024-01-05 10:05:00''\<rparr>]\<rparr>))"
proof -
  have v: "''Tea'' \<noteq> []" "(0::real) < 3" "''Food & Dining'' \<noteq> []" "''2024-01-07'' \<noteq> []"
    by simp_all
  have rows: "expenses demo_store = [demo_coffee, demo_bus]"
    by (simp add: demo_store_def)
  have ids: "e_id demo_coffee = 1" "e_id demo_bus = 2"
    by (simp_all add: demo_coffee_def demo_bus_def)
  note missing = update_delete_by_id [OF v, where expense_id = 7 and s = demo_store
      and ?notes = None]
  note present = update_delete_by_id [OF v, where expense_id = 2 and s = demo_store
      and xs = "[demo_coffee]" and e = demo_bus and ys = "[]" and ?notes = None]
  from missing present rows ids show ?thesis
    by (simp add: demo_bus_def)
qed

subsection \<open>Key constraints\<close>

lemma filter_key_absent: "k \<notin> f ` set xs \<Longrightarrow> filter (\<lambda>x. f x = k) xs = []"
  by (induction xs) auto

lemma keys_unique_init_db: "keys_unique d \<Longrightarrow> keys_unique (init_db d)"
  by (auto simp add: keys_unique_def init_db_def empty_store_def split: option.splits)

lemma keys_unique_add_expense:
  "keys_unique d \<Longrightarrow>
   keys_unique (snd (add_expense now description amount category date notes d))"
  by (auto simp add: keys_unique_def add_expense_def insert_expense_def Let_def
      next_rowid_notin simp del: set_map split: option.splits)

lemma e_id_update:
  "e_id \<circ> (\<lambda>r. if e_id r = i
              then r\<lparr>e_description := a, e_amount := b, e_category := c,
                     e_date := dt, e_notes := n\<rparr>
              else r) = e_id"
  by (rule ext) simp

lemma keys_unique_update_expense:
  "keys_unique d \<Longrightarrow>
   keys_unique (snd (update_expense expense_id description amount category date notes d))"
  by (auto simp add: keys_unique_def update_expense_def sql_update_expense_def Let_def
      e_id_update split: option.splits)

lemma keys_unique_delete_expense:
  "keys_unique d \<Longrightarrow> keys_unique (snd (delete_expense expense_id d))"
  by (auto simp add: keys_unique_def delete_expense_def sql_delete_expense_def Let_def
      distinct_map_filter split: option.splits)

lemma keys_unique_set_budget:
  "keys_unique d \<Longrightarrow> keys_unique (snd (set_budget now category amount period description d))"
proof (cases d)
  case None
  then show ?thesis by (simp add: keys_unique_def set_budget_def)
next
  case (Some s)
  assume u: "keys_unique d"
  let ?new = "next_rowid (budgets_seq s) (map b_id (budgets s))"
  let ?keep = "filter (\<lambda>b. b_category b \<noteq> category) (budgets s)"
  have "?new \<notin> set (map b_id (budgets s))" by (rule next_rowid_notin)
  then have fresh: "?new \<notin> b_id ` set ?keep" by auto
  have cat: "category \<notin> b_category ` set ?keep" by auto
  from u Some have "distinct (map b_id ?keep)" "distinct (map b_category ?keep)"
    by (simp_all add: keys_unique_def distinct_map_filter)
  with u Some fresh cat show ?thesis
    by (simp add: keys_unique_def set_budget_def insert_or_replace_budget_def Let_def)
qed

lemma keys_unique_delete_budget:
  "keys_unique d \<Longrightarrow> keys_unique (snd (delete_budget budget_id d))"
  by (auto simp add: keys_unique_def delete_budget_def sql_delete_budget_def Let_def
      distinct_map_filter split: option.splits)

lemma reachable_keys_unique: "reachable d \<Longrightarrow> keys_unique d"
proof (induction rule: reachable.induct)
  case reachable_start
  show ?case by (simp add: keys_unique_def)
qed (simp_all add: keys_unique_init_db keys_unique_add_expense
    keys_unique_update_expense keys_unique_delete_expense
    keys_unique_set_budget keys_unique_delete_budget)

subsection \<open>Identity of a replaced budget row\<close>

text \<open>
  C10. When \<open>set_budget\<close> is called for a category that already has a budget row
  \<open>old\<close>, the one row the category has afterwards carries a new identifier, larger than
  and so different from that of \<open>old\<close>, and its \<open>created_at\<close> is the time of the call,
  not that of \<open>old\<close>. No row carries the identifier of \<open>old\<close> any more, so
  \<open>delete_budget\<close> on it raises "Budget not found". Identifiers are distinct, as the
  primary key has it in every reachable database.
\<close>

theorem set_budget_replaces_row_identity:
  assumes "old \<in> set (budgets s)" and "b_category old = category"
    and "category \<noteq> []" and "0 < amount"
    and "distinct (map b_id (budgets s))"
  shows
    "\<exists>s' row.
       set_budget now category amount period description (Some s) = (Inr (), Some s') \<and>
       filter (\<lambda>b. b_category b = category) (budgets s') = [row] \<and>
       b_id row \<noteq> b_id old \<and> b_id old < b_id row \<and>
       b_created_at row = now \<and>
       b_id old \<notin> b_id ` set (budgets s') \<and>
       delete_budget (b_id old) (Some s') = (Inl (ValueError ''Budget not found''), Some s')"
proof -
  let ?new = "next_rowid (budgets_seq s) (map b_id (budgets s))"
  let ?row = "\<lparr>b_id = ?new, b_category = category, b_amount = amount,
                b_period = period, b_description = description,
                b_created_at = now, b_updated_at = now\<rparr>"
  let ?keep = "filter (\<lambda>b. b_category b \<noteq> category) (budgets s)"
  let ?s' = "s\<lparr>budgets := ?keep @ [?row], budgets_seq := ?new\<rparr>"
  from assms(3,4)
  have run: "set_budget now category amount period description (Some s) = (Inr (), Some ?s')"
    by (simp add: set_budget_def insert_or_replace_budget_def Let_def)
  have one: "filter (\<lambda>b. b_category b = category) (budgets ?s') = [?row]"
    by simp
  from assms(1) have "b_id old \<in> set (map b_id (budgets s))" by simp
  then have less: "b_id old < ?new" by (rule next_rowid_fresh)
  have gone: "b_id b \<noteq> b_id old" if "b \<in> set (budgets s)" and "b_category b \<noteq> category" for b
  proof
    assume "b_id b = b_id old"
    with assms(5) that(1) assms(1) have "b = old"
      by (simp add: distinct_map inj_on_def)
    with that(2) assms(2) show False by simp
  qed
  from less have neq: "b_id ?row \<noteq> b_id old" by simp
  from less have less': "b_id old < b_id ?row" by simp
  have created: "b_created_at ?row = now" by simp
  from neq gone have absent: "b_id old \<notin> b_id ` set (budgets ?s')" by force
  then have "filter (\<lambda>b. b_id b = b_id old) (budgets ?s') = []"
    by (rule filter_key_absent)
  then have del: "delete_budget (b_id old) (Some ?s') =
      (Inl (ValueError ''Budget not found''), Some ?s')"
    by (simp add: delete_budget_def sql_delete_budget_def)
  from run one neq less' created absent del show ?thesis
    by blast
qed

theorem set_budget_replaces_row_identity_witness:
  "demo_food_budget \<in> set (budgets demo_store) \<and>
   b_category demo_food_budget = ''Food & Dining'' \<and> b_id demo_food_budget = 1 \<and>
   ''Food & Dining'' \<noteq> [] \<and> (0::real) < 150 \<and>
   distinct (map b_id (budgets demo_store)) \<and>
   (\<exists>s' row.
      set_budget ''2024-02-01 08:00:00'' ''Food & Dining'' 150 ''Monthly'' None (Some demo_store) =
        (Inr (), Some s') \<and>
      filter (\<lambda>b. b_category b = ''Food & Dining'') (budgets s') = [row] \<and>
      b_id row \<noteq> 1 \<and> 1 < b_id row \<and>
      b_created_at row = ''2024-02-01 08:00:00'' \<and>
      1 \<notin> b_id ` set (budgets s') \<and>
      delete_budget 1 (Some s') = (Inl (ValueError ''Budget not found''), Some s'))"
proof -
  have h1: "demo_food_budget \<in> set (budgets demo_store)" by (simp add: demo_store_def)
  have h2: "b_category demo_food_budget = ''Food & Dining''" by (simp add: demo_food_budget_def)
  have h3: "''Food & Dining'' \<noteq> []" by simp
  have h4: "(0::real) < 150" by simp
  have h5: "distinct (map b_id (budgets demo_store))"
    by (simp add: demo_store_def demo_food_budget_def demo_transport_budget_def)
  have id: "b_id demo_food_budget = 1" by (simp add: demo_food_budget_def)
  from set_budget_replaces_row_identity [OF h1 h2 h3 h4 h5,
      of "''2024-02-01 08:00:00''" "''Monthly''" None]
    h1 h2 h5 id
  show ?thesis by simp
qed

subsection \<open>Listing expenses\<close>

lemma sorted_wrt_order_by_date_created_desc:
  "sorted_wrt (\<lambda>a b. e_date b < e_date a \<or> (e_date a = e_date b \<and> e_created_at b \<le> e_created_at a))
     (order_by_date_created_desc rows)"
proof -
  let ?k = "\<lambda>e. (e_date e, e_created_at e)"
  have "sorted (map ?k (sort_key ?k rows))" by (rule sorted_sort_key)
  then have "sorted_wrt (\<lambda>a b. ?k a \<le> ?k b) (sort_key ?k rows)"
    by (simp add: sorted_map)
  then have "sorted_wrt (\<lambda>a b. ?k b \<le> ?k a) (rev (sort_key ?k rows))"
    by (simp add: sorted_wrt_rev)
  then show ?thesis
    unfolding order_by_date_created_desc_def
    by (rule sorted_wrt_mono_rel [rotated]) (auto simp add: less_eq_prod_def)
qed

lemma mset_order_by_date_created_desc: "mset (order_by_date_created_desc rows) = mset rows"
  by (simp add: order_by_date_created_desc_def)

text \<open>
  C6. \<open>get_expenses\<close> returns the rows of the table, each as often as the table
  holds it, ordered by date descending and, among equal dates, by \<open>created_at\<close>
  descending. It returns the empty sequence when the table is empty, and also when the
  query raises (here: the table does not exist), instead of passing the error on.
\<close>

theorem get_expenses_spec:
  "mset (get_expenses (Some s)) = mset (expenses s) \<and>
   sorted_wrt (\<lambda>a b. e_date b < e_date a \<or> (e_date a = e_date b \<and> e_created_at b \<le> e_created_at a))
     (get_expenses (Some s)) \<and>
   get_expenses (Some (s\<lparr>expenses := []\<rparr>)) = [] \<and>
   select_expenses None = Inl (OperationalError ''no such table: expenses'') \<and>
   get_expenses None = []"
  by (simp add: get_expenses_def select_expenses_def mset_order_by_date_created_desc
      sorted_wrt_order_by_date_created_desc)
     (simp add: order_by_date_created_desc_def)

theorem get_expenses_spec_witness:
  "get_expenses (Some demo_store) = [demo_coffee, demo_bus] \<and>
   mset (get_expenses (Some demo_store)) = mset (expenses demo_store) \<and>
   get_expenses (Some (demo_store\<lparr>expenses := []\<rparr>)) = [] \<and>
   get_expenses None = []"
proof -
  have "get_expenses (Some demo_store) = [demo_coffee, demo_bus]"
    by (simp add: get_expenses_def select_expenses_def order_by_date_created_desc_def
        demo_store_def demo_coffee_def demo_bus_def less_eq_prod_def)
  with get_expenses_spec [of demo_store] show ?thesis by simp
qed

subsection \<open>Listing categories\<close>

text \<open>
  C9. When at least one expense exists, \<open>get_categories\<close> returns the categories that
  occur in the table, each once, in ascending order (the order of \<^verbatim>\<open>ORDER BY category\<close>,
  which compares the texts character code by character code). When no expense exists, or
  the query raises, it returns the fixed list of nine default categories.
\<close>

theorem get_categories_spec:
  "(expenses s \<noteq> [] \<longrightarrow>
      sorted (get_categories (Some s)) \<and> distinct (get_categories (Some s)) \<and>
      set (get_categories (Some s)) = e_category ` set (expenses s)) \<and>
   (expenses s = [] \<longrightarrow> get_categories (Some s) = default_categories) \<and>
   get_categories None = default_categories \<and>
   default_categories =
     [''Food & Dining'', ''Transportation'', ''Shopping'', ''Entertainment'',
      ''Bills & Utilities'', ''Healthcare'', ''Travel'', ''Education'', ''Other''] \<and>
   length default_categories = 9"
proof -
  have "sort (remdups (map e_category (expenses s))) \<noteq> []" if "expenses s \<noteq> []"
  proof
    assume "sort (remdups (map e_category (expenses s))) = []"
    then have "set (sort (remdups (map e_category (expenses s)))) = {}" by simp
    with that show False by simp
  qed
  then show ?thesis
    by (simp add: get_categories_def select_categories_def default_categories_def)
qed

theorem get_categories_spec_witness:
  "expenses demo_store \<noteq> [] \<and>
   get_categories (Some demo_store) = [''Food & Dining'', ''Transportation''] \<and>
   sorted (get_categories (Some demo_store)) \<and> distinct (get_categories (Some demo_store)) \<and>
   set (get_categories (Some demo_store)) = e_category ` set (expenses demo_store) \<and>
   expenses empty_store = [] \<and> get_categories (Some empty_store) = default_categories"
proof -
  have ne: "expenses demo_store \<noteq> []" by (simp add: demo_store_def)
  have e: "expenses empty_store = []" by (simp add: empty_store_def)
  have v: "get_categories (Some demo_store) = [''Food & Dining'', ''Transportation'']"
    by (simp add: get_categories_def select_categories_def demo_store_def
        demo_coffee_def demo_bus_def)
  from get_categories_spec [of demo_store] get_categories_spec [of empty_store] ne e v
  show ?thesis by simp
qed

subsection \<open>Search\<close>

lemma like_percent: "like (CHR ''%'' # ps) s \<longleftrightarrow> (\<exists>k \<le> length s. like ps (drop k s))"
proof (induction s)
  case Nil
  then show ?case by simp
next
  case (Cons c cs)
  have "(\<exists>k \<le> length (c # cs). like ps (drop k (c # cs))) \<longleftrightarrow>
        like ps (c # cs) \<or> (\<exists>k \<le> length cs. like ps (drop k cs))"
  proof
    assume "\<exists>k \<le> length (c # cs). like ps (drop k (c # cs))"
    then obtain k where k: "k \<le> length (c # cs)" "like ps (drop k (c # cs))" by blast
    show "like ps (c # cs) \<or> (\<exists>k \<le> length cs. like ps (drop k cs))"
    proof (cases k)
      case 0
      with k show ?thesis by simp
    next
      case (Suc j)
      with k have "j \<le> length cs" "like ps (drop j cs)" by simp_all
      then show ?thesis by blast
    qed
  next
    assume "like ps (c # cs) \<or> (\<exists>k \<le> length cs. like ps (drop k cs))"
    then show "\<exists>k \<le> length (c # cs). like ps (drop k (c # cs))"
    proof
      assume "like ps (c # cs)"
      then have "0 \<le> length (c # cs) \<and> like ps (drop 0 (c # cs))" by simp
      then show ?thesis by blast
    next
      assume "\<exists>k \<le> length cs. like ps (drop k cs)"
      then obtain k where "k \<le> length cs" "like ps (drop k cs)" by blast
      then have "Suc k \<le> length (c # cs) \<and> like ps (drop (Suc k) (c # cs))" by simp
      then show ?thesis by blast
    qed
  qed
  with Cons show ?case by simp
qed

lemma like_only_percent: "like ''%'' s"
  by (induction s) simp_all

lemma like_literal_prefix:
  "CHR ''%'' \<notin> set t \<Longrightarrow> CHR ''_'' \<notin> set t \<Longrightarrow>
   like (t @ ps) s \<longleftrightarrow> starts_with_ci t s \<and> like ps (drop (length t) s)"
proof (induction t arbitrary: s)
  case Nil
  then show ?case by simp
next
  case (Cons a ts)
  then show ?case by (cases s) auto
qed

lemma contains_ci_drop:
  "contains_ci t s \<longleftrightarrow> (\<exists>k \<le> length s. starts_with_ci t (drop k s))"
proof (induction s)
  case Nil
  show ?case by (cases t) simp_all
next
  case (Cons c cs)
  have "(\<exists>k \<le> length (c # cs). starts_with_ci t (drop k (c # cs))) \<longleftrightarrow>
        starts_with_ci t (c # cs) \<or> (\<exists>k \<le> length cs. starts_with_ci t (drop k cs))"
  proof
    assume "\<exists>k \<le> length (c # cs). starts_with_ci t (drop k (c # cs))"
    then obtain k where k: "k \<le> length (c # cs)" "starts_with_ci t (drop k (c # cs))" by blast
    show "starts_with_ci t (c # cs) \<or> (\<exists>k \<le> length cs. starts_with_ci t (drop k cs))"
    proof (cases k)
      case 0
      with k show ?thesis by simp
    next
      case (Suc j)
      with k have "j \<le> length cs" "starts_with_ci t (drop j cs)" by simp_all
      then show ?thesis by blast
    qed
  next
    assume "starts_with_ci t (c # cs) \<or> (\<exists>k \<le> length cs. starts_with_ci t (drop k cs))"
    then show "\<exists>k \<le> length (c # cs). starts_with_ci t (drop k (c # cs))"
    proof
      assume "starts_with_ci t (c # cs)"
      then have "0 \<le> length (c # cs) \<and> starts_with_ci t (drop 0 (c # cs))" by simp
      then show ?thesis by blast
    next
      assume "\<exists>k \<le> length cs. starts_with_ci t (drop k cs)"
      then obtain k where "k \<le> length cs" "starts_with_ci t (drop k cs)" by blast
      then have "Suc k \<le> length (c # cs) \<and> starts_with_ci t (drop (Suc k) (c # cs))" by simp
      then show ?thesis by blast
    qed
  qed
  with Cons show ?case by simp
qed

lemma like_substring:
  assumes "CHR ''%'' \<notin> set t" and "CHR ''_'' \<notin> set t"
  shows "like (CHR ''%'' # t @ ''%'') s \<longleftrightarrow> contains_ci t s"
proof -
  have "like (CHR ''%'' # t @ ''%'') s \<longleftrightarrow> (\<exists>k \<le> length s. like (t @ ''%'') (drop k s))"
    by (rule like_percent)
  also have "\<dots> \<longleftrightarrow> (\<exists>k \<le> length s. starts_with_ci t (drop k s))"
    using assms by (simp add: like_literal_prefix like_only_percent)
  also have "\<dots> \<longleftrightarrow> contains_ci t s" by (simp add: contains_ci_drop)
  finally show ?thesis .
qed

lemma search_match_substring:
  assumes "CHR ''%'' \<notin> set t" and "CHR ''_'' \<notin> set t"
  shows "search_match (CHR ''%'' # t @ ''%'') = spec_search_match t"
proof
  fix e
  show "search_match (CHR ''%'' # t @ ''%'') e = spec_search_match t e"
    unfolding search_match_def spec_search_match_def
    by (simp add: like_substring [OF assms] split: option.split)
qed

lemma order_by_date_created_desc_filter:
  "order_by_date_created_desc (filter P rows) = filter P (order_by_date_created_desc rows)"
  by (simp add: order_by_date_created_desc_def filter_sort [symmetric] rev_filter)


text \<open>
  C8, as amended. For an absent or empty term \<open>search_expenses\<close> is \<open>get_expenses\<close>.
  For a term that contains neither \<^verbatim>\<open>%\<close> nor \<^verbatim>\<open>_\<close> it returns exactly the expenses
  whose description, notes or category contains the term as a substring up to the case of
  the ASCII letters, in the order of \<open>get_expenses\<close>.
\<close>

theorem search_expenses_literal_terms:
  "(\<not> truthy search_term \<longrightarrow> search_expenses search_term d = get_expenses d) \<and>
   (t \<noteq> [] \<and> CHR ''%'' \<notin> set t \<and> CHR ''_'' \<notin> set t \<longrightarrow>
      search_expenses (Some t) d = filter (spec_search_match t) (get_expenses d))"
proof (intro conjI impI)
  assume "\<not> truthy search_term"
  then show "search_expenses search_term d = get_expenses d"
    by (simp add: search_expenses_def)
next
  assume h: "t \<noteq> [] \<and> CHR ''%'' \<notin> set t \<and> CHR ''_'' \<notin> set t"
  then have m: "search_match (CHR ''%'' # t @ ''%'') = spec_search_match t"
    by (simp add: search_match_substring)
  from h have "truthy (Some t)" by (simp add: truthy_def)
  then show "search_expenses (Some t) d = filter (spec_search_match t) (get_expenses d)"
    by (cases d)
      (simp_all add: search_expenses_def select_search_def get_expenses_def select_expenses_def
        m order_by_date_created_desc_filter Let_def)
qed

text \<open>
  C8 as stated fails: the term is put into the \<^verbatim>\<open>LIKE\<close> pattern as it is, so
  \<^verbatim>\<open>_\<close> stands for any single character. The term \<^verbatim>\<open>_\<close> selects both sample
  expenses, although none of their fields contains an underscore.
\<close>

theorem search_expenses_wildcard_counterexample:
  "search_expenses (Some ''_'') (Some demo_store) = [demo_coffee, demo_bus] \<and>
   filter (spec_search_match ''_'') (get_expenses (Some demo_store)) = []"
  by (simp add: search_expenses_def select_search_def get_expenses_def select_expenses_def
      order_by_date_created_desc_def search_match_def spec_search_match_def truthy_def
      demo_store_def demo_coffee_def demo_bus_def less_eq_prod_def ascii_lower_def)

theorem search_expenses_literal_terms_witness:
  "\<not> truthy (Some []) \<and> \<not> truthy None \<and>
   search_expenses (Some []) (Some demo_store) = get_expenses (Some demo_store) \<and>
   search_expenses None (Some demo_store) = get_expenses (Some demo_store) \<and>
   ''FOOD'' \<noteq> [] \<and> CHR ''%'' \<notin> set ''FOOD'' \<and> CHR ''_'' \<notin> set ''FOOD'' \<and>
   search_expenses (Some ''FOOD'') (Some demo_store) =
     filter (spec_search_match ''FOOD'') (get_expenses (Some demo_store)) \<and>
   filter (spec_search_match ''FOOD'') (get_expenses (Some demo_store)) = [demo_coffee]"
proof -
  have "filter (spec_search_match ''FOOD'') (get_expenses (Some demo_store)) = [demo_coffee]"
    by (simp add: get_expenses_def select_expenses_def
      order_by_date_created_desc_def spec_search_match_def
      demo_store_def demo_coffee_def demo_bus_def less_eq_prod_def ascii_lower_def)
  with search_expenses_literal_terms [of "Some []" "Some demo_store" "''FOOD''"]
    search_expenses_literal_terms [of None "Some demo_store" "''FOOD''"]
  show ?thesis by (simp add: truthy_def)
qed

subsection \<open>Summary by category\<close>

lemma digits_less:
  fixes q r q' r' :: nat
  assumes "r < 10" and "r' < 10"
  shows "10 * q + r < 10 * q' + r' \<longleftrightarrow> q < q' \<or> (q = q' \<and> r < r')"
  using assms by arith

lemma two_digits_less:
  "(a::nat) < b \<longleftrightarrow> a div 10 < b div 10 \<or> (a div 10 = b div 10 \<and> a mod 10 < b mod 10)"
proof -
  have "a < b \<longleftrightarrow> 10 * (a div 10) + a mod 10 < 10 * (b div 10) + b mod 10" by simp
  also have "\<dots> \<longleftrightarrow> a div 10 < b div 10 \<or> (a div 10 = b div 10 \<and> a mod 10 < b mod 10)"
    by (rule digits_less) simp_all
  finally show ?thesis .
qed

lemma hundreds_less:
  fixes q r q' r' :: nat
  assumes "r < 100" and "r' < 100"
  shows "100 * q + r < 100 * q' + r' \<longleftrightarrow> q < q' \<or> (q = q' \<and> r < r')"
  using assms by arith

lemma year_less:
  "(y::nat) < y' \<longleftrightarrow> y div 100 < y' div 100 \<or> (y div 100 = y' div 100 \<and> y mod 100 < y' mod 100)"
proof -
  have "y < y' \<longleftrightarrow> 100 * (y div 100) + y mod 100 < 100 * (y' div 100) + y' mod 100" by simp
  also have "\<dots> \<longleftrightarrow> y div 100 < y' div 100 \<or> (y div 100 = y' div 100 \<and> y mod 100 < y' mod 100)"
    by (rule hundreds_less) simp_all
  finally show ?thesis .
qed


lemma div_mod_eq_iff: "(a::nat) = b \<longleftrightarrow> a div n = b div n \<and> a mod n = b mod n"
proof
  assume "a div n = b div n \<and> a mod n = b mod n"
  then have "n * (a div n) + a mod n = n * (b div n) + b mod n" by simp
  then show "a = b" by (simp only: mult_div_mod_eq)
qed simp

lemma digit_char_less: "i < 10 \<Longrightarrow> j < 10 \<Longrightarrow> digit_char i < digit_char j \<longleftrightarrow> i < j"
  by (simp add: digit_char_def less_char_def)

lemma digit_char_eq: "i < 10 \<Longrightarrow> j < 10 \<Longrightarrow> digit_char i = digit_char j \<longleftrightarrow> i = j"
proof
  assume b: "i < 10" "j < 10" and "digit_char i = digit_char j"
  then have "(of_char (digit_char i) :: nat) = of_char (digit_char j)" by simp
  with b show "i = j" by (simp add: digit_char_def)
qed simp

lemma pad2_append_less:
  assumes "a < 100" and "b < 100"
  shows "pad2 a @ xs < pad2 b @ ys \<longleftrightarrow> a < b \<or> (a = b \<and> xs < ys)"
proof -
  from assms have d: "a div 10 < 10" "a mod 10 < 10" "b div 10 < 10" "b mod 10 < 10"
    by simp_all
  have e: "a = b \<longleftrightarrow> a div 10 = b div 10 \<and> a mod 10 = b mod 10"
    by (rule div_mod_eq_iff)
  have "pad2 a @ xs < pad2 b @ ys \<longleftrightarrow>
        a div 10 < b div 10 \<or>
        (a div 10 = b div 10 \<and> (a mod 10 < b mod 10 \<or> (a mod 10 = b mod 10 \<and> xs < ys)))"
    by (simp add: pad2_def digit_char_less [OF d(1) d(3)] digit_char_less [OF d(2) d(4)]
        digit_char_eq [OF d(1) d(3)] digit_char_eq [OF d(2) d(4)])
  also have "\<dots> \<longleftrightarrow> a < b \<or> (a = b \<and> xs < ys)"
    unfolding two_digits_less [of a b] e by blast
  finally show ?thesis .
qed

lemma iso_date_mono:
  assumes "valid_ymd y m d" and "valid_ymd y' m' d'" and "earlier (y, m, d) (y', m', d')"
  shows "iso_date y m d < iso_date y' m' d'"
proof -
  from assms(1,2) have "y < 10000" "y' < 10000" by (simp_all add: valid_ymd_def)
  then have c: "y div 100 < 100" "y' div 100 < 100" by simp_all
  from assms(1,2) have b: "y mod 100 < 100" "m < 100" "d < 100"
    "y' mod 100 < 100" "m' < 100" "d' < 100"
    by (simp_all add: valid_ymd_def)
  have ye: "y = y' \<longleftrightarrow> y div 100 = y' div 100 \<and> y mod 100 = y' mod 100"
    by (rule div_mod_eq_iff)
  have last: "pad2 d < pad2 d' \<longleftrightarrow> d < d'"
    using pad2_append_less [OF b(3) b(6), of "[]" "[]"] by simp
  have "iso_date y m d < iso_date y' m' d' \<longleftrightarrow>
        y div 100 < y' div 100 \<or> (y div 100 = y' div 100 \<and>
          (y mod 100 < y' mod 100 \<or> (y mod 100 = y' mod 100 \<and>
            (m < m' \<or> (m = m' \<and> d < d')))))"
    unfolding iso_date_def
    by (simp add: pad2_append_less c b last)
  also have "\<dots> \<longleftrightarrow> y < y' \<or> (y = y' \<and> (m < m' \<or> (m = m' \<and> d < d')))"
    using year_less [of y y'] ye by blast
  also have "\<dots> \<longleftrightarrow> earlier (y, m, d) (y', m', d')"
    by (simp add: earlier_def)
  finally show ?thesis using assms(3) by simp
qed

lemma iso_date_not_empty: "iso_date y m d \<noteq> []"
  by (simp add: iso_date_def pad2_def)


lemma char_of_digit:
  "char_of (48::nat) = CHR ''0''" "char_of (49::nat) = CHR ''1''" "char_of (50::nat) = CHR ''2''"
  "char_of (51::nat) = CHR ''3''" "char_of (52::nat) = CHR ''4''" "char_of (53::nat) = CHR ''5''"
  "char_of (54::nat) = CHR ''6''" "char_of (55::nat) = CHR ''7''" "char_of (56::nat) = CHR ''8''"
  "char_of (57::nat) = CHR ''9''"
  by (simp_all add: char_of_eq_iff)

lemma date_filter_iff:
  "date_filter start_date end_date dt \<longleftrightarrow>
     (truthy start_date \<longrightarrow> the start_date \<le> dt) \<and> (truthy end_date \<longrightarrow> dt \<le> the end_date)"
  by (simp add: date_filter_def)

lemma s_category_summarize: "s_category (summarize rows c) = c"
  by (simp add: summarize_def Let_def)

lemma map_s_category_summarize: "map s_category (map (summarize rows) cs) = cs"
  by (induction cs) (simp_all add: s_category_summarize)

lemma sorted_wrt_summary_order:
  "sorted_wrt (\<lambda>a b. total_amount b \<le> total_amount a) (rev (sort_key total_amount groups))"
proof -
  have "sorted (map total_amount (sort_key total_amount groups))" by (rule sorted_sort_key)
  then have "sorted_wrt (\<lambda>a b. total_amount a \<le> total_amount b) (sort_key total_amount groups)"
    by (simp add: sorted_map)
  then show ?thesis by (simp add: sorted_wrt_rev)
qed

lemma get_expense_summary_Some:
  "get_expense_summary start_date end_date (Some s) =
     rev (sort_key total_amount
       (map (summarize (filter (\<lambda>e. date_filter start_date end_date (e_date e)) (expenses s)))
         (remdups (map e_category
           (filter (\<lambda>e. date_filter start_date end_date (e_date e)) (expenses s))))))"
  by (simp add: get_expense_summary_def select_summary_def Let_def)

lemma summary_categories:
  "mset (map s_category (get_expense_summary start_date end_date (Some s))) =
   mset (remdups (map e_category
     (filter (\<lambda>e. date_filter start_date end_date (e_date e)) (expenses s))))"
proof -
  let ?rows = "filter (\<lambda>e. date_filter start_date end_date (e_date e)) (expenses s)"
  let ?groups = "map (summarize ?rows) (remdups (map e_category ?rows))"
  have "mset (rev (sort_key total_amount ?groups)) = mset ?groups" by simp
  then have "image_mset s_category (mset (rev (sort_key total_amount ?groups))) =
      image_mset s_category (mset ?groups)"
    by (rule arg_cong)
  then have "mset (map s_category (rev (sort_key total_amount ?groups))) =
      mset (map s_category ?groups)"
    by (simp only: mset_map)
  also have "\<dots> = mset (remdups (map e_category ?rows))"
    by (simp only: map_s_category_summarize)
  finally show ?thesis by (simp only: get_expense_summary_Some)
qed


text \<open>
  C7. For every choice of the two optional bounds, \<open>get_expense_summary\<close> returns one
  row per category that occurs among the expenses selected by the bounds, with the number
  of those expenses, the sum, the average, the least and the greatest of their amounts,
  ordered by the sum descending. An expense is selected when its date is not before the
  start bound (if one is given) and not after the end bound (if one is given). For dates
  written as \<^verbatim>\<open>YYYY-MM-DD\<close> the comparison of the texts is the order of the calendar,
  so an expense dated exactly at a bound is selected, and one dated earlier than the start
  bound or later than the end bound, by one day or more, is not.
\<close>

theorem get_expense_summary_spec:
  "distinct (map s_category (get_expense_summary start_date end_date (Some s))) \<and>
   set (map s_category (get_expense_summary start_date end_date (Some s))) =
     e_category ` {e \<in> set (expenses s). date_filter start_date end_date (e_date e)} \<and>
   (\<forall>r \<in> set (get_expense_summary start_date end_date (Some s)).
      (\<exists>e \<in> set (expenses s).
         date_filter start_date end_date (e_date e) \<and> e_category e = s_category r) \<and>
      transaction_count r =
        length (filter (\<lambda>e. date_filter start_date end_date (e_date e) \<and>
                  e_category e = s_category r) (expenses s)) \<and>
      total_amount r =
        sum_list (map e_amount (filter (\<lambda>e. date_filter start_date end_date (e_date e) \<and>
                  e_category e = s_category r) (expenses s))) \<and>
      avg_amount r = total_amount r / real (transaction_count r) \<and>
      min_amount r =
        Min (e_amount ` {e \<in> set (expenses s).
               date_filter start_date end_date (e_date e) \<and> e_category e = s_category r}) \<and>
      max_amount r =
        Max (e_amount ` {e \<in> set (expenses s).
               date_filter start_date end_date (e_date e) \<and> e_category e = s_category r})) \<and>
   sorted_wrt (\<lambda>a b. total_amount b \<le> total_amount a)
     (get_expense_summary start_date end_date (Some s)) \<and>
   (date_filter start_date end_date dt \<longleftrightarrow>
      (truthy start_date \<longrightarrow> the start_date \<le> dt) \<and> (truthy end_date \<longrightarrow> dt \<le> the end_date)) \<and>
   (valid_ymd y m d \<and> valid_ymd y' m' d' \<and> earlier (y, m, d) (y', m', d') \<longrightarrow>
      \<not> date_filter (Some (iso_date y' m' d')) end_date (iso_date y m d) \<and>
      \<not> date_filter start_date (Some (iso_date y m d)) (iso_date y' m' d') \<and>
      date_filter (Some (iso_date y m d)) (Some (iso_date y' m' d')) (iso_date y m d) \<and>
      date_filter (Some (iso_date y m d)) (Some (iso_date y' m' d')) (iso_date y' m' d') \<and>
      date_filter (Some (iso_date y m d)) None (iso_date y m d) \<and>
      date_filter None (Some (iso_date y' m' d')) (iso_date y' m' d'))"
proof (intro conjI)
  let ?P = "\<lambda>e. date_filter start_date end_date (e_date e)"
  let ?rows = "filter ?P (expenses s)"
  let ?res = "get_expense_summary start_date end_date (Some s)"
  have cats: "mset (map s_category ?res) = mset (remdups (map e_category ?rows))"
    by (rule summary_categories)
  have "distinct (remdups (map e_category ?rows))" by simp
  with cats show "distinct (map s_category ?res)"
    by (metis mset_eq_imp_distinct_iff)
  from cats have "set (map s_category ?res) = set (remdups (map e_category ?rows))"
    by (rule mset_eq_setD)
  then show "set (map s_category ?res) = e_category ` {e \<in> set (expenses s). ?P e}"
    by simp
  show "sorted_wrt (\<lambda>a b. total_amount b \<le> total_amount a) ?res"
    by (simp only: get_expense_summary_Some sorted_wrt_summary_order)
  show "date_filter start_date end_date dt \<longleftrightarrow>
      (truthy start_date \<longrightarrow> the start_date \<le> dt) \<and> (truthy end_date \<longrightarrow> dt \<le> the end_date)"
    by (rule date_filter_iff)
  show "\<forall>r \<in> set ?res.
      (\<exists>e \<in> set (expenses s). ?P e \<and> e_category e = s_category r) \<and>
      transaction_count r =
        length (filter (\<lambda>e. ?P e \<and> e_category e = s_category r) (expenses s)) \<and>
      total_amount r =
        sum_list (map e_amount (filter (\<lambda>e. ?P e \<and> e_category e = s_category r) (expenses s))) \<and>
      avg_amount r = total_amount r / real (transaction_count r) \<and>
      min_amount r =
        Min (e_amount ` {e \<in> set (expenses s). ?P e \<and> e_category e = s_category r}) \<and>
      max_amount r =
        Max (e_amount ` {e \<in> set (expenses s). ?P e \<and> e_category e = s_category r})"
  proof
    fix r
    assume "r \<in> set ?res"
    then have "r \<in> set (map (summarize ?rows) (remdups (map e_category ?rows)))"
      by (simp only: get_expense_summary_Some set_rev set_sort)
    then obtain c where c: "c \<in> e_category ` set ?rows" and r: "r = summarize ?rows c"
      by auto
    have set_eq: "set (filter (\<lambda>e. e_category e = c) ?rows) =
        {e \<in> set (expenses s). ?P e \<and> e_category e = c}"
      by auto
    have amounts: "set (map e_amount (filter (\<lambda>e. e_category e = c) ?rows)) =
        e_amount ` {e \<in> set (expenses s). ?P e \<and> e_category e = c}"
      by (simp only: set_map set_eq)
    from c have ex: "\<exists>e \<in> set (expenses s). ?P e \<and> e_category e = c" by auto
    from ex amounts show
      "(\<exists>e \<in> set (expenses s). ?P e \<and> e_category e = s_category r) \<and>
      transaction_count r =
        length (filter (\<lambda>e. ?P e \<and> e_category e = s_category r) (expenses s)) \<and>
      total_amount r =
        sum_list (map e_amount (filter (\<lambda>e. ?P e \<and> e_category e = s_category r) (expenses s))) \<and>
      avg_amount r = total_amount r / real (transaction_count r) \<and>
      min_amount r =
        Min (e_amount ` {e \<in> set (expenses s). ?P e \<and> e_category e = s_category r}) \<and>
      max_amount r =
        Max (e_amount ` {e \<in> set (expenses s). ?P e \<and> e_category e = s_category r})"
      unfolding r by (simp add: summarize_def Let_def)
  qed
  show "valid_ymd y m d \<and> valid_ymd y' m' d' \<and> earlier (y, m, d) (y', m', d') \<longrightarrow>
      \<not> date_filter (Some (iso_date y' m' d')) end_date (iso_date y m d) \<and>
      \<not> date_filter start_date (Some (iso_date y m d)) (iso_date y' m' d') \<and>
      date_filter (Some (iso_date y m d)) (Some (iso_date y' m' d')) (iso_date y m d) \<and>
      date_filter (Some (iso_date y m d)) (Some (iso_date y' m' d')) (iso_date y' m' d') \<and>
      date_filter (Some (iso_date y m d)) None (iso_date y m d) \<and>
      date_filter None (Some (iso_date y' m' d')) (iso_date y' m' d')"
  proof
    assume "valid_ymd y m d \<and> valid_ymd y' m' d' \<and> earlier (y, m, d) (y', m', d')"
    then have lt: "iso_date y m d < iso_date y' m' d'" by (simp add: iso_date_mono)
    have ne: "truthy (Some (iso_date y m d))" "truthy (Some (iso_date y' m' d'))" "\<not> truthy None"
      by (simp_all add: truthy_def iso_date_not_empty)
    from lt ne show
      "\<not> date_filter (Some (iso_date y' m' d')) end_date (iso_date y m d) \<and>
      \<not> date_filter start_date (Some (iso_date y m d)) (iso_date y' m' d') \<and>
      date_filter (Some (iso_date y m d)) (Some (iso_date y' m' d')) (iso_date y m d) \<and>
      date_filter (Some (iso_date y m d)) (Some (iso_date y' m' d')) (iso_date y' m' d') \<and>
      date_filter (Some (iso_date y m d)) None (iso_date y m d) \<and>
      date_filter None (Some (iso_date y' m' d')) (iso_date y' m' d')"
      by (simp add: date_filter_iff not_le less_imp_le)
  qed
qed


lemma iso_date_examples:
  "iso_date 2024 1 1 = ''2024-01-01''" "iso_date 2024 1 2 = ''2024-01-02''"
  "iso_date 2024 1 5 = ''2024-01-05''" "iso_date 2024 1 6 = ''2024-01-06''"
  "iso_date 2023 12 31 = ''2023-12-31''"
  by (simp_all add: iso_date_def pad2_def digit_char_def char_of_digit)

theorem get_expense_summary_spec_witness:
  "valid_ymd 2023 12 31 \<and> valid_ymd 2024 1 1 \<and> earlier (2023, 12, 31) (2024, 1, 1) \<and>
   \<not> date_filter (Some ''2024-01-01'') None ''2023-12-31'' \<and>
   \<not> date_filter None (Some ''2023-12-31'') ''2024-01-01'' \<and>
   date_filter (Some ''2023-12-31'') (Some ''2024-01-01'') ''2023-12-31'' \<and>
   date_filter (Some ''2023-12-31'') (Some ''2024-01-01'') ''2024-01-01'' \<and>
   get_expense_summary None None (Some demo_store) =
     [\<lparr>s_category = ''Transportation'', transaction_count = 1, total_amount = 60,
       avg_amount = 60, min_amount = 60, max_amount = 60\<rparr>,
      \<lparr>s_category = ''Food & Dining'', transaction_count = 1, total_amount = 9 / 2,
       avg_amount = 9 / 2, min_amount = 9 / 2, max_amount = 9 / 2\<rparr>] \<and>
   get_expense_summary (Some ''2024-01-01'') (Some ''2024-01-05'') (Some demo_store) =
     get_expense_summary None None (Some demo_store) \<and>
   get_expense_summary (Some ''2024-01-02'') (Some ''2024-01-05'') (Some demo_store) =
     [\<lparr>s_category = ''Food & Dining'', transaction_count = 1, total_amount = 9 / 2,
       avg_amount = 9 / 2, min_amount = 9 / 2, max_amount = 9 / 2\<rparr>] \<and>
   get_expense_summary (Some ''2024-01-01'') (Some ''2024-01-04'') (Some demo_store) =
     [\<lparr>s_category = ''Transportation'', transaction_count = 1, total_amount = 60,
       avg_amount = 60, min_amount = 60, max_amount = 60\<rparr>] \<and>
   distinct (map s_category (get_expense_summary None None (Some demo_store))) \<and>
   sorted_wrt (\<lambda>a b. total_amount b \<le> total_amount a)
     (get_expense_summary None None (Some demo_store))"
proof -
  have v: "valid_ymd 2023 12 31" "valid_ymd 2024 1 1" "earlier (2023, 12, 31) (2024, 1, 1)"
    by (simp_all add: valid_ymd_def earlier_def)
  note t = get_expense_summary_spec [where start_date = None and end_date = None
      and s = demo_store and y = 2023 and m = 12 and d = 31 and y' = 2024 and m' = 1 and d' = 1]
  have e1: "get_expense_summary None None (Some demo_store) =
     [\<lparr>s_category = ''Transportation'', transaction_count = 1, total_amount = 60,
       avg_amount = 60, min_amount = 60, max_amount = 60\<rparr>,
      \<lparr>s_category = ''Food & Dining'', transaction_count = 1, total_amount = 9 / 2,
       avg_amount = 9 / 2, min_amount = 9 / 2, max_amount = 9 / 2\<rparr>]"
    by (simp add: get_expense_summary_def select_summary_def date_filter_def truthy_def
        summarize_def demo_store_def demo_coffee_def demo_bus_def Let_def)
  have e2: "get_expense_summary (Some ''2024-01-01'') (Some ''2024-01-05'') (Some demo_store) =
     get_expense_summary None None (Some demo_store)"
    by (simp add: get_expense_summary_def select_summary_def date_filter_def truthy_def
        summarize_def demo_store_def demo_coffee_def demo_bus_def Let_def)
  have e3: "get_expense_summary (Some ''2024-01-02'') (Some ''2024-01-05'') (Some demo_store) =
     [\<lparr>s_category = ''Food & Dining'', transaction_count = 1, total_amount = 9 / 2,
       avg_amount = 9 / 2, min_amount = 9 / 2, max_amount = 9 / 2\<rparr>]"
    by (simp add: get_expense_summary_def select_summary_def date_filter_def truthy_def
        summarize_def demo_store_def demo_coffee_def demo_bus_def Let_def)
  have e4: "get_expense_summary (Some ''2024-01-01'') (Some ''2024-01-04'') (Some demo_store) =
     [\<lparr>s_category = ''Transportation'', transaction_count = 1, total_amount = 60,
       avg_amount = 60, min_amount = 60, max_amount = 60\<rparr>]"
    by (simp add: get_expense_summary_def select_summary_def date_filter_def truthy_def
        summarize_def demo_store_def demo_coffee_def demo_bus_def Let_def)
  from t v have
    "\<not> date_filter (Some ''2024-01-01'') None ''2023-12-31'' \<and>
     \<not> date_filter None (Some ''2023-12-31'') ''2024-01-01'' \<and>
     date_filter (Some ''2023-12-31'') (Some ''2024-01-01'') ''2023-12-31'' \<and>
     date_filter (Some ''2023-12-31'') (Some ''2024-01-01'') ''2024-01-01'' \<and>
     distinct (map s_category (get_expense_summary None None (Some demo_store))) \<and>
     sorted_wrt (\<lambda>a b. total_amount b \<le> total_amount a)
       (get_expense_summary None None (Some demo_store))"
    by (simp only: iso_date_examples) blast
  with v e1 e2 e3 e4 show ?thesis by (simp only: simp_thms)
qed

subsection \<open>Validation\<close>

lemma strip_empty_iff: "strip s = [] \<longleftrightarrow> list_all is_space s"
proof -
  have "strip s = [] \<longleftrightarrow> (\<forall>c \<in> set (dropWhile is_space s). is_space c)"
    by (simp add: strip_def dropWhile_eq_Nil_conv)
  also have "\<dots> \<longleftrightarrow> dropWhile is_space s = []"
  proof
    assume a: "\<forall>c \<in> set (dropWhile is_space s). is_space c"
    show "dropWhile is_space s = []"
    proof (rule ccontr)
      assume n: "dropWhile is_space s \<noteq> []"
      then have "\<not> is_space (hd (dropWhile is_space s))" by (rule hd_dropWhile)
      moreover from n have "hd (dropWhile is_space s) \<in> set (dropWhile is_space s)" by simp
      ultimately show False using a by blast
    qed
  next
    assume "dropWhile is_space s = []"
    then show "\<forall>c \<in> set (dropWhile is_space s). is_space c"
      by (simp del: dropWhile_eq_Nil_conv)
  qed
  also have "\<dots> \<longleftrightarrow> list_all is_space s"
    by (simp add: dropWhile_eq_Nil_conv list_all_iff)
  finally show ?thesis .
qed

lemma blank_iff:
  "(case x of None \<Rightarrow> True | Some t \<Rightarrow> t = [] \<or> strip t = []) \<longleftrightarrow>
   (case x of None \<Rightarrow> True | Some t \<Rightarrow> list_all is_space t)"
  by (cases x) (auto simp add: strip_empty_iff)

lemma collect_errors:
  "(let errors = [];
        errors = (if A then errors @ [a] else errors);
        errors = (if B then errors @ [b] else errors);
        errors = (if C then errors @ [c] else errors);
        errors = (if D then errors @ [d] else errors)
    in case P of
         None \<Rightarrow> errors @ [e]
       | Some p \<Rightarrow>
           (let errors = (if F p then errors @ [f] else errors);
                errors = (if G p then errors @ [g] else errors)
            in errors)) =
   (if A then [a] else []) @ (if B then [b] else []) @ (if C then [c] else []) @
   (if D then [d] else []) @
   (case P of
      None \<Rightarrow> [e]
    | Some p \<Rightarrow> (if F p then [f] else []) @ (if G p then [g] else []))"
  by (simp add: Let_def split: option.split)

lemma collected_subset:
  "set ((if A then [a] else []) @ (if B then [b] else []) @ (if C then [c] else []) @
        (if D then [d] else []) @
        (case P of
           None \<Rightarrow> [e]
         | Some p \<Rightarrow> (if F p then [f] else []) @ (if G p then [g] else [])))
   \<subseteq> {a, b, c, d, e, f, g}"
  by (auto split: option.split if_splits)

lemma validate_unfold:
  "validate_expense_data strptime today description amount category date =
     (if (case description of None \<Rightarrow> True | Some t \<Rightarrow> list_all is_space t)
      then [''Description is required''] else []) @
     (if (case amount of None \<Rightarrow> True | Some a \<Rightarrow> a \<le> 0)
      then [''Amount must be greater than 0''] else []) @
     (if (case category of None \<Rightarrow> True | Some t \<Rightarrow> list_all is_space t)
      then [''Category is required''] else []) @
     (if date_falsy date then [''Date is required''] else []) @
     (case parse_date strptime date of
        None \<Rightarrow> [''Invalid date format'']
      | Some p \<Rightarrow>
          (if today < p then [''Date cannot be in the future''] else []) @
          (if p < today - 3650 then [''Date seems too far in the past''] else []))"
  unfolding validate_expense_data_def blank_iff
  by (rule collect_errors)

text \<open>
  C4. \<open>validate_expense_data\<close> returns one message for every rule that the input
  violates and no other message, whatever else is wrong with the input: the description is
  absent or blank, the amount is absent or not positive, the category is absent or blank,
  the date is absent, the date cannot be parsed (which an absent date cannot either), the
  date is after today, the date is more than 3650 days before today. It rejects the amounts
  0 and -1, the day after today and the day 3651 days before today, and it returns no
  message for the amount 0.01, for today and for the day 3650 days before today.
\<close>

theorem validate_expense_data_spec:
  "(''Description is required'' \<in> set (validate_expense_data strptime today description amount category date)
      \<longleftrightarrow> (case description of None \<Rightarrow> True | Some t \<Rightarrow> list_all is_space t)) \<and>
   (''Amount must be greater than 0'' \<in> set (validate_expense_data strptime today description amount category date)
      \<longleftrightarrow> (case amount of None \<Rightarrow> True | Some a \<Rightarrow> a \<le> 0)) \<and>
   (''Category is required'' \<in> set (validate_expense_data strptime today description amount category date)
      \<longleftrightarrow> (case category of None \<Rightarrow> True | Some t \<Rightarrow> list_all is_space t)) \<and>
   (''Date is required'' \<in> set (validate_expense_data strptime today description amount category date)
      \<longleftrightarrow> date_falsy date) \<and>
   (''Invalid date format'' \<in> set (validate_expense_data strptime today description amount category date)
      \<longleftrightarrow> parse_date strptime date = None) \<and>
   (''Date cannot be in the future'' \<in> set (validate_expense_data strptime today description amount category date)
      \<longleftrightarrow> (\<exists>p. parse_date strptime date = Some p \<and> today < p)) \<and>
   (''Date seems too far in the past'' \<in> set (validate_expense_data strptime today description amount category date)
      \<longleftrightarrow> (\<exists>p. parse_date strptime date = Some p \<and> p < today - 3650)) \<and>
   distinct (validate_expense_data strptime today description amount category date) \<and>
   set (validate_expense_data strptime today description amount category date) \<subseteq>
     {''Description is required'', ''Amount must be greater than 0'', ''Category is required'',
      ''Date is required'', ''Invalid date format'', ''Date cannot be in the future'',
      ''Date seems too far in the past''} \<and>
   validate_expense_data strptime today (Some []) (Some 0) (Some []) DateNone =
     [''Description is required'', ''Amount must be greater than 0'', ''Category is required'',
      ''Date is required'', ''Invalid date format''] \<and>
   validate_expense_data strptime today (Some ''Coffee'') (Some 0) (Some ''Food'') (DateObj today) =
     [''Amount must be greater than 0''] \<and>
   validate_expense_data strptime today (Some ''Coffee'') (Some (- 1)) (Some ''Food'') (DateObj today) =
     [''Amount must be greater than 0''] \<and>
   validate_expense_data strptime today (Some ''Coffee'') (Some 5) (Some ''Food'') (DateObj (today + 1)) =
     [''Date cannot be in the future''] \<and>
   validate_expense_data strptime today (Some ''Coffee'') (Some 5) (Some ''Food'') (DateObj (today - 3651)) =
     [''Date seems too far in the past''] \<and>
   validate_expense_data strptime today (Some ''Coffee'') (Some (1 / 100)) (Some ''Food'') (DateObj today) = [] \<and>
   validate_expense_data strptime today (Some ''Coffee'') (Some 5) (Some ''Food'') (DateObj (today - 3650)) = []"
proof -
  let ?V = "validate_expense_data strptime today description amount category date"
  have m1: "''Description is required'' \<in> set ?V
      \<longleftrightarrow> (case description of None \<Rightarrow> True | Some t \<Rightarrow> list_all is_space t)"
    by (simp add: validate_unfold split: option.split)
  have m2: "''Amount must be greater than 0'' \<in> set ?V
      \<longleftrightarrow> (case amount of None \<Rightarrow> True | Some a \<Rightarrow> a \<le> 0)"
    by (simp add: validate_unfold split: option.split)
  have m3: "''Category is required'' \<in> set ?V
      \<longleftrightarrow> (case category of None \<Rightarrow> True | Some t \<Rightarrow> list_all is_space t)"
    by (simp add: validate_unfold split: option.split)
  have m4: "''Date is required'' \<in> set ?V \<longleftrightarrow> date_falsy date"
    by (simp add: validate_unfold split: option.split)
  have m5: "''Invalid date format'' \<in> set ?V \<longleftrightarrow> parse_date strptime date = None"
    by (simp add: validate_unfold split: option.split)
  have m6: "''Date cannot be in the future'' \<in> set ?V
      \<longleftrightarrow> (\<exists>p. parse_date strptime date = Some p \<and> today < p)"
    by (simp add: validate_unfold split: option.split)
  have m7: "''Date seems too far in the past'' \<in> set ?V
      \<longleftrightarrow> (\<exists>p. parse_date strptime date = Some p \<and> p < today - 3650)"
    by (simp add: validate_unfold split: option.split)
  have d: "distinct ?V"
    by (simp add: validate_unfold split: option.split)
  have s: "set ?V \<subseteq>
     {''Description is required'', ''Amount must be greater than 0'', ''Category is required'',
      ''Date is required'', ''Invalid date format'', ''Date cannot be in the future'',
      ''Date seems too far in the past''}"
    unfolding validate_unfold by (rule collected_subset)
  have e1: "validate_expense_data strptime today (Some []) (Some 0) (Some []) DateNone =
     [''Description is required'', ''Amount must be greater than 0'', ''Category is required'',
      ''Date is required'', ''Invalid date format'']"
    by (simp add: validate_unfold date_falsy_def parse_date_def)
  have e2: "validate_expense_data strptime today (Some ''Coffee'') (Some 0) (Some ''Food'') (DateObj today) =
     [''Amount must be greater than 0'']"
    by (simp add: validate_unfold date_falsy_def parse_date_def is_space_def)
  have e3: "validate_expense_data strptime today (Some ''Coffee'') (Some (- 1)) (Some ''Food'') (DateObj today) =
     [''Amount must be greater than 0'']"
    by (simp add: validate_unfold date_falsy_def parse_date_def is_space_def)
  have e4: "validate_expense_data strptime today (Some ''Coffee'') (Some 5) (Some ''Food'') (DateObj (today + 1)) =
     [''Date cannot be in the future'']"
    by (simp add: validate_unfold date_falsy_def parse_date_def is_space_def)
  have e5: "validate_expense_data strptime today (Some ''Coffee'') (Some 5) (Some ''Food'') (DateObj (today - 3651)) =
     [''Date seems too far in the past'']"
    by (simp add: validate_unfold date_falsy_def parse_date_def is_space_def)
  have e6: "validate_expense_data strptime today (Some ''Coffee'') (Some (1 / 100)) (Some ''Food'') (DateObj today) = []"
    by (simp add: validate_unfold date_falsy_def parse_date_def is_space_def)
  have e7: "validate_expense_data strptime today (Some ''Coffee'') (Some 5) (Some ''Food'') (DateObj (today - 3650)) = []"
    by (simp add: validate_unfold date_falsy_def parse_date_def is_space_def)
  from m1 m2 m3 m4 m5 m6 m7 d s e1 e2 e3 e4 e5 e6 e7 show ?thesis by blast
qed


theorem validate_expense_data_spec_witness:
  "parse_date demo_strptime (DateStr ''05/01/2024'') = None \<and>
   ''Invalid date format'' \<in>
     set (validate_expense_data demo_strptime 738890 (Some ''Coffee'') (Some 5) (Some ''Food'')
            (DateStr ''05/01/2024'')) \<and>
   parse_date demo_strptime (DateStr ''2024-01-05'') = Some 738890 \<and>
   ''Date cannot be in the future'' \<in>
     set (validate_expense_data demo_strptime 738889 (Some ''Coffee'') (Some 5) (Some ''Food'')
            (DateStr ''2024-01-05'')) \<and>
   ''Date seems too far in the past'' \<in>
     set (validate_expense_data demo_strptime 742541 (Some ''Coffee'') (Some 5) (Some ''Food'')
            (DateStr ''2024-01-05'')) \<and>
   ''Date seems too far in the past'' \<notin>
     set (validate_expense_data demo_strptime 742540 (Some ''Coffee'') (Some 5) (Some ''Food'')
            (DateStr ''2024-01-05'')) \<and>
   validate_expense_data demo_strptime 738890 (Some ''Coffee'') (Some (1 / 100)) (Some ''Food'')
     (DateStr ''2024-01-05'') = [] \<and>
   validate_expense_data demo_strptime 738890 (Some ''   '') None None (DateStr []) =
     [''Description is required'', ''Amount must be greater than 0'', ''Category is required'',
      ''Date is required'', ''Invalid date format'']"
proof -
  have p1: "parse_date demo_strptime (DateStr ''05/01/2024'') = None"
    and p2: "parse_date demo_strptime (DateStr ''2024-01-05'') = Some 738890"
    and p3: "parse_date demo_strptime (DateStr []) = None"
    by (simp_all add: parse_date_def demo_strptime_def)
  note bad = validate_expense_data_spec [where strptime = demo_strptime and today = 738890
      and description = "Some ''Coffee''" and amount = "Some 5" and category = "Some ''Food''"
      and date = "DateStr ''05/01/2024''"]
  note future = validate_expense_data_spec [where strptime = demo_strptime and today = 738889
      and description = "Some ''Coffee''" and amount = "Some 5" and category = "Some ''Food''"
      and date = "DateStr ''2024-01-05''"]
  note past = validate_expense_data_spec [where strptime = demo_strptime and today = 742541
      and description = "Some ''Coffee''" and amount = "Some 5" and category = "Some ''Food''"
      and date = "DateStr ''2024-01-05''"]
  note edge = validate_expense_data_spec [where strptime = demo_strptime and today = 742540
      and description = "Some ''Coffee''" and amount = "Some 5" and category = "Some ''Food''"
      and date = "DateStr ''2024-01-05''"]
  have a: "''Invalid date format'' \<in>
     set (validate_expense_data demo_strptime 738890 (Some ''Coffee'') (Some 5) (Some ''Food'')
            (DateStr ''05/01/2024''))"
    using bad p1 by blast
  have b: "''Date cannot be in the future'' \<in>
     set (validate_expense_data demo_strptime 738889 (Some ''Coffee'') (Some 5) (Some ''Food'')
            (DateStr ''2024-01-05''))"
    using future p2 by simp
  have c: "''Date seems too far in the past'' \<in>
     set (validate_expense_data demo_strptime 742541 (Some ''Coffee'') (Some 5) (Some ''Food'')
            (DateStr ''2024-01-05''))"
    using past p2 by simp
  have d: "''Date seems too far in the past'' \<notin>
     set (validate_expense_data demo_strptime 742540 (Some ''Coffee'') (Some 5) (Some ''Food'')
            (DateStr ''2024-01-05''))"
    using edge p2 by simp
  have e: "validate_expense_data demo_strptime 738890 (Some ''Coffee'') (Some (1 / 100)) (Some ''Food'')
     (DateStr ''2024-01-05'') = []"
    by (simp add: validate_unfold p2 date_falsy_def is_space_def)
  have f: "validate_expense_data demo_strptime 738890 (Some ''   '') None None (DateStr []) =
     [''Description is required'', ''Amount must be greater than 0'', ''Category is required'',
      ''Date is required'', ''Invalid date format'']"
    by (simp add: validate_unfold p3 date_falsy_def is_space_def)
  from p1 p2 a b c d e f show ?thesis by blast
qed

subsection \<open>Budget status\<close>

lemma double_round_scaled:
  assumes "2 ^ 52 \<le> \<bar>x\<bar> * 2 ^ n" and "\<bar>x\<bar> * 2 ^ n < 2 ^ 53" and "n \<le> 1074"
  shows "double_round x = of_int (round_half_even (x * 2 ^ n)) / 2 ^ n"
proof -
  from assms(1) have nz: "x \<noteq> 0" by auto
  then have pos: "0 < \<bar>x\<bar>" by simp
  have p2: "(2::real) powr of_int (52 - int n) = 2 ^ 52 / 2 ^ n"
    by (simp add: powr_diff powr_realpow flip: powr_numeral)
  have p3: "(2::real) powr of_int (52 - int n + 1) = 2 ^ 53 / 2 ^ n"
    by (simp add: powr_diff powr_add powr_realpow flip: powr_numeral)
  have lo: "(2::real) powr of_int (52 - int n) \<le> \<bar>x\<bar>"
    unfolding p2 using assms(1) by (simp add: divide_le_eq)
  have hi: "\<bar>x\<bar> < (2::real) powr of_int (52 - int n + 1)"
    unfolding p3 using assms(2) by (simp add: less_divide_eq)
  from lo hi have fl: "\<lfloor>log 2 \<bar>x\<bar>\<rfloor> = 52 - int n"
    using floor_log_eq_powr_iff [of "\<bar>x\<bar>" 2 "52 - int n"] pos by simp
  from assms(3) have "max (\<lfloor>log 2 \<bar>x\<bar>\<rfloor> - 52) (- 1074) = - int n"
    unfolding fl by simp
  then have ulp: "(2::real) powr of_int (max (\<lfloor>log 2 \<bar>x\<bar>\<rfloor> - 52) (- 1074)) = 1 / 2 ^ n"
    by (simp add: powr_minus powr_realpow inverse_eq_divide)
  show ?thesis
    using nz by (simp add: double_round_def Let_def ulp del: of_int_max)
qed

lemma float_div_90_100: "float_div 90 100 = 8106479329266893 / 2 ^ 53"
  unfolding float_div_def
  by (subst double_round_scaled [where n = 53]) (simp_all add: round_half_even_def Let_def)

lemma float_mul_09_100: "float_mul (8106479329266893 / 2 ^ 53) 100 = 90"
  unfolding float_mul_def
  by (subst double_round_scaled [where n = 46]) (simp_all add: round_half_even_def Let_def)

lemma float_sub_100_90: "float_sub 100 90 = 10"
  unfolding float_sub_def
  by (subst double_round_scaled [where n = 49]) (simp_all add: round_half_even_def Let_def)

lemma float_div_100_100: "float_div 100 100 = 1"
  unfolding float_div_def
  by (subst double_round_scaled [where n = 52]) (simp_all add: round_half_even_def Let_def)

lemma float_mul_1_100: "float_mul 1 100 = 100"
  unfolding float_mul_def
  by (subst double_round_scaled [where n = 46]) (simp_all add: round_half_even_def Let_def)

lemma float_div_003_004: "float_div double_003 double_004 = 3 / 4"
  unfolding float_div_def double_003_def double_004_def
  by (subst double_round_scaled [where n = 53]) (simp_all add: round_half_even_def Let_def)

lemma float_mul_075_100: "float_mul (3 / 4) 100 = 75"
  unfolding float_mul_def
  by (subst double_round_scaled [where n = 46]) (simp_all add: round_half_even_def Let_def)

lemma doubles_representable: "double_round double_003 = double_003" "double_round double_004 = double_004"
  unfolding double_003_def double_004_def
   apply (subst double_round_scaled [where n = 58]; simp add: round_half_even_def Let_def)
  apply (subst double_round_scaled [where n = 57]; simp add: round_half_even_def Let_def)
  done


lemma float_div_160_200: "float_div 160 200 = 3602879701896397 / 2 ^ 52"
  unfolding float_div_def
  by (subst double_round_scaled [where n = 53]) (simp_all add: round_half_even_def Let_def)

lemma float_mul_08_100: "float_mul (3602879701896397 / 2 ^ 52) 100 = 80"
  unfolding float_mul_def
  by (subst double_round_scaled [where n = 46]) (simp_all add: round_half_even_def Let_def)

lemma float_sub_200_160: "float_sub 200 160 = 40"
  unfolding float_sub_def
  by (subst double_round_scaled [where n = 47]) (simp_all add: round_half_even_def Let_def)

text \<open>
  C3, as amended. Without a positive budget the status is "No Budget Set" with percentage
  0 and remaining 0. With a positive budget the label is decided by the value \<open>p\<close> that
  the float arithmetic gives to \<^verbatim>\<open>(spent_amount / budget_amount) * 100\<close>, the quotient
  rounded to a double, times 100, rounded again (at least 100: "Over Budget", at least 90:
  "Near Limit", at least 75: "On Track", otherwise "Good"); the returned percentage is
  \<open>p\<close> capped at 100 and the remaining amount is the rounded difference. The three
  examples of the specification hold.
\<close>

theorem calculate_budget_status_float:
  "(budget_amount \<le> 0 \<longrightarrow>
      status (calculate_budget_status spent_amount budget_amount) = ''No Budget Set'' \<and>
      percentage (calculate_budget_status spent_amount budget_amount) = 0 \<and>
      remaining (calculate_budget_status spent_amount budget_amount) = 0) \<and>
   (0 < budget_amount \<longrightarrow>
      status (calculate_budget_status spent_amount budget_amount) =
        (if double_round (double_round (spent_amount / budget_amount) * 100) \<ge> 100
         then ''Over Budget''
         else if double_round (double_round (spent_amount / budget_amount) * 100) \<ge> 90
         then ''Near Limit''
         else if double_round (double_round (spent_amount / budget_amount) * 100) \<ge> 75
         then ''On Track''
         else ''Good'') \<and>
      percentage (calculate_budget_status spent_amount budget_amount) =
        min (double_round (double_round (spent_amount / budget_amount) * 100)) 100 \<and>
      remaining (calculate_budget_status spent_amount budget_amount) =
        double_round (budget_amount - spent_amount)) \<and>
   percentage (calculate_budget_status 90 100) = 90 \<and>
   status (calculate_budget_status 90 100) = ''Near Limit'' \<and>
   percentage (calculate_budget_status 100 100) = 100 \<and>
   status (calculate_budget_status 100 100) = ''Over Budget'' \<and>
   status (calculate_budget_status 0 0) = ''No Budget Set''"
proof -
  have general: "(budget_amount \<le> 0 \<longrightarrow>
      status (calculate_budget_status spent_amount budget_amount) = ''No Budget Set'' \<and>
      percentage (calculate_budget_status spent_amount budget_amount) = 0 \<and>
      remaining (calculate_budget_status spent_amount budget_amount) = 0) \<and>
   (0 < budget_amount \<longrightarrow>
      status (calculate_budget_status spent_amount budget_amount) =
        (if double_round (double_round (spent_amount / budget_amount) * 100) \<ge> 100
         then ''Over Budget''
         else if double_round (double_round (spent_amount / budget_amount) * 100) \<ge> 90
         then ''Near Limit''
         else if double_round (double_round (spent_amount / budget_amount) * 100) \<ge> 75
         then ''On Track''
         else ''Good'') \<and>
      percentage (calculate_budget_status spent_amount budget_amount) =
        min (double_round (double_round (spent_amount / budget_amount) * 100)) 100 \<and>
      remaining (calculate_budget_status spent_amount budget_amount) =
        double_round (budget_amount - spent_amount))"
    by (simp add: calculate_budget_status_def float_div_def float_mul_def float_sub_def Let_def)
  have e1: "percentage (calculate_budget_status 90 100) = 90 \<and>
      status (calculate_budget_status 90 100) = ''Near Limit''"
    by (simp add: calculate_budget_status_def float_div_90_100 float_mul_09_100 [simplified] Let_def)
  have e2: "percentage (calculate_budget_status 100 100) = 100 \<and>
      status (calculate_budget_status 100 100) = ''Over Budget''"
    by (simp add: calculate_budget_status_def float_div_100_100 float_mul_1_100 Let_def)
  have e3: "status (calculate_budget_status 0 0) = ''No Budget Set''"
    by (simp add: calculate_budget_status_def)
  from general e1 e2 e3 show ?thesis by blast
qed

text \<open>
  C3 as stated, with the label decided by the ratio itself, fails: for the doubles of
  \<^verbatim>\<open>0.03\<close> and \<^verbatim>\<open>0.04\<close> the ratio times 100 is below 75, yet the quotient rounds to
  \<open>3 / 4\<close>, the percentage is 75 and the label is "On Track", not "Good".
\<close>

theorem calculate_budget_status_exact_ratio_counterexample:
  "double_round double_003 = double_003 \<and> double_round double_004 = double_004 \<and>
   0 < double_004 \<and> double_003 / double_004 * 100 < 75 \<and>
   status (calculate_budget_status double_003 double_004) = ''On Track'' \<and>
   percentage (calculate_budget_status double_003 double_004) = 75"
proof -
  have pos: "0 < double_004" by (simp add: double_004_def)
  have exact: "double_003 / double_004 * 100 < 75"
    by (simp add: double_003_def double_004_def)
  from pos have "\<not> double_004 \<le> 0" by simp
  then have "status (calculate_budget_status double_003 double_004) = ''On Track'' \<and>
      percentage (calculate_budget_status double_003 double_004) = 75"
    by (simp add: calculate_budget_status_def float_div_003_004 float_mul_075_100 Let_def)
  with pos exact doubles_representable show ?thesis by simp
qed

theorem calculate_budget_status_float_witness:
  "(0::real) < 200 \<and> (0::real) \<le> 0 \<and>
   double_round (160 / 200) = 3602879701896397 / 2 ^ 52 \<and>
   double_round (3602879701896397 / 2 ^ 52 * 100) = 80 \<and>
   status (calculate_budget_status 160 200) = ''On Track'' \<and>
   percentage (calculate_budget_status 160 200) = 80 \<and>
   remaining (calculate_budget_status 160 200) = 40 \<and>
   status (calculate_budget_status 10 0) = ''No Budget Set'' \<and>
   percentage (calculate_budget_status 10 0) = 0 \<and>
   remaining (calculate_budget_status 10 0) = 0"
proof -
  have q: "double_round (160 / 200) = 3602879701896397 / 2 ^ 52"
    using float_div_160_200 by (simp only: float_div_def)
  have p: "double_round (3602879701896397 / 2 ^ 52 * 100) = 80"
    using float_mul_08_100 by (simp only: float_mul_def)
  have r: "double_round (200 - 160) = 40"
    using float_sub_200_160 by (simp only: float_sub_def)
  note t1 = calculate_budget_status_float [where budget_amount = 200 and spent_amount = 160]
  note t2 = calculate_budget_status_float [where budget_amount = 0 and spent_amount = 10]
  have pos: "(0::real) < 200" by simp
  from t1 pos have
    "status (calculate_budget_status 160 200) =
        (if double_round (double_round (160 / 200) * 100) \<ge> 100 then ''Over Budget''
         else if double_round (double_round (160 / 200) * 100) \<ge> 90 then ''Near Limit''
         else if double_round (double_round (160 / 200) * 100) \<ge> 75 then ''On Track''
         else ''Good'')"
    and "percentage (calculate_budget_status 160 200) =
        min (double_round (double_round (160 / 200) * 100)) 100"
    and "remaining (calculate_budget_status 160 200) = double_round (200 - 160)"
    by blast+
  then have a: "status (calculate_budget_status 160 200) = ''On Track''"
    and b: "percentage (calculate_budget_status 160 200) = 80"
    and c: "remaining (calculate_budget_status 160 200) = 40"
    unfolding q p r by simp_all
  from t2 have d: "status (calculate_budget_status 10 0) = ''No Budget Set'' \<and>
      percentage (calculate_budget_status 10 0) = 0 \<and>
      remaining (calculate_budget_status 10 0) = 0"
    by simp
  from q p a b c d show ?thesis by simp
qed

end
